theory Spec2Isabelle
  imports Main "HOL-Library.Char_ord" "HOL-Library.List_Lexorder" "HOL-Library.Multiset"
begin

section \<open>JavaScript strings\<close>

text \<open>
  A JavaScript string is a sequence of UTF-16 code units. The model uses \<open>string\<close> and
  so covers the strings whose code units lie in the range U+0000..U+00FF, one \<open>char\<close> per
  code unit; \<open>length\<close> is the \<open>.length\<close> of the source, and the order of
  \<open>HOL-Library.List_Lexorder\<close> over \<open>HOL-Library.Char_ord\<close> is the source's \<open><\<close> on
  strings (lexicographic by code unit, a proper prefix first).
\<close>

definition isWhitespace :: "char \<Rightarrow> bool" where
  \<comment> \<open>the white space and line terminator code units below U+0100\<close>
  "isWhitespace c = (of_char c \<in> set [9, 10, 11, 12, 13, 32, 160 :: nat])"

definition trim :: "string \<Rightarrow> string" where
  "trim s = rev (dropWhile isWhitespace (rev (dropWhile isWhitespace s)))"

definition lower_char :: "char \<Rightarrow> char" where
  "lower_char c =
     (let n = (of_char c :: nat)
      in if (65 \<le> n \<and> n \<le> 90) \<or> (192 \<le> n \<and> n \<le> 222 \<and> n \<noteq> 215)
         then char_of (n + 32) else c)"

definition toLowerCase :: "string \<Rightarrow> string" where
  "toLowerCase s = map lower_char s"

fun startsWith :: "string \<Rightarrow> string \<Rightarrow> bool" where
  "startsWith s [] = True"
| "startsWith [] (p # ps) = False"
| "startsWith (c # cs) (p # ps) = (c = p \<and> startsWith cs ps)"

fun includes_str :: "string \<Rightarrow> string \<Rightarrow> bool" where
  "includes_str [] q = (q = [])"
| "includes_str (c # cs) q = (startsWith (c # cs) q \<or> includes_str cs q)"

definition substring0 :: "nat \<Rightarrow> string \<Rightarrow> string" where
  \<comment> \<open>\<open>s.substring(0, n)\<close>\<close>
  "substring0 n s = take n s"

section \<open>Errors\<close>

text \<open>
  Every error of the source is an \<open>Error\<close> with a message, or a runtime
  \<open>TypeError\<close>; the model names each message.
\<close>

datatype error =
    StorageQuotaExceeded   \<comment> \<open>\<open>'Storage quota exceeded'\<close>\<close>
  | StorageUnavailable     \<comment> \<open>\<open>'localStorage is not available'\<close>\<close>
  | TasksMustBeArray       \<comment> \<open>\<open>'Tasks must be an array'\<close>\<close>
  | ImportFailed           \<comment> \<open>\<open>'Failed to import data: ...'\<close>\<close>
  | ValidationFailed "string list"   \<comment> \<open>the joined validation messages of \<open>createTask\<close>\<close>
  | TaskIdRequired         \<comment> \<open>\<open>'Task ID is required'\<close>\<close>
  | TaskNotFound string    \<comment> \<open>\<open>'Task with ID ... not found'\<close>\<close>
  | NothingToUndo          \<comment> \<open>\<open>'No state to undo to'\<close>\<close>
  | TypeError              \<comment> \<open>a property read or a call on \<open>undefined\<close>, or the conversion of
                               an object that has no callable \<open>toString\<close> or \<open>valueOf\<close>\<close>
  | Thrown string          \<comment> \<open>an exception of a caller's update function or callback\<close>

fun all_or_first_error :: "(error + 'a) list \<Rightarrow> error + 'a list" where
  \<comment> \<open>the results of a loop that stops at the first element that throws\<close>
  "all_or_first_error [] = Inr []"
| "all_or_first_error (Inl e # rs) = Inl e"
| "all_or_first_error (Inr v # rs) = (case all_or_first_error rs of Inl e \<Rightarrow> Inl e | Inr vs \<Rightarrow> Inr (v # vs))"

section \<open>JavaScript values read from JSON\<close>

text \<open>
  The values \<open>JSON.parse\<close> returns. Numbers are integers in this model. \<open>JObj\<close>
  holds an object's own properties in insertion order. A property that is absent reads
  as \<open>undefined\<close>, which is \<open>None\<close> of \<open>json option\<close>.
\<close>

datatype json =
    JNull
  | JBool bool
  | JNum int
  | JStr string
  | JArr "json list"
  | JObj "(string \<times> json) list"

fun truthy :: "json \<Rightarrow> bool" where
  "truthy JNull = False"
| "truthy (JBool b) = b"
| "truthy (JNum n) = (n \<noteq> 0)"
| "truthy (JStr s) = (s \<noteq> [])"
| "truthy (JArr xs) = True"
| "truthy (JObj kvs) = True"

fun truthy_opt :: "json option \<Rightarrow> bool" where
  "truthy_opt None = False"
| "truthy_opt (Some v) = truthy v"

fun get_prop :: "json \<Rightarrow> string \<Rightarrow> json option" where
  \<comment> \<open>\<open>v.k\<close> for a value \<open>v\<close> that is not \<open>null\<close>\<close>
  "get_prop (JObj kvs) k = map_of kvs k"
| "get_prop _ k = None"

fun isArray :: "json option \<Rightarrow> bool" where
  "isArray (Some (JArr xs)) = True"
| "isArray _ = False"

fun isObject :: "json \<Rightarrow> bool" where
  \<comment> \<open>\<open>typeof v === 'object'\<close> for a value that is not \<open>null\<close>\<close>
  "isObject (JArr xs) = True"
| "isObject (JObj kvs) = True"
| "isObject _ = False"

fun set_prop :: "string \<Rightarrow> json \<Rightarrow> (string \<times> json) list \<Rightarrow> (string \<times> json) list" where
  \<comment> \<open>assignment to a property: an existing key keeps its place, a new one comes last\<close>
  "set_prop k v [] = [(k, v)]"
| "set_prop k v (p # ps) = (if fst p = k then (k, v) # ps else p # set_prop k v ps)"

subsection \<open>Conversions\<close>

definition digit_char :: "nat \<Rightarrow> char" where
  "digit_char d = char_of (48 + d)"

function show_nat :: "nat \<Rightarrow> string" where
  "show_nat n = (if n < 10 then [digit_char n] else show_nat (n div 10) @ [digit_char (n mod 10)])"
  by pat_completeness auto
termination
  by (relation "measure (\<lambda>n. n)") auto

definition show_int :: "int \<Rightarrow> string" where
  "show_int i = (if i < 0 then CHR ''-'' # show_nat (nat (- i)) else show_nat (nat i))"

fun join_with :: "string \<Rightarrow> string list \<Rightarrow> string" where
  "join_with sep [] = []"
| "join_with sep [x] = x"
| "join_with sep (x # y # ys) = x @ sep @ join_with sep (y # ys)"

definition has_own :: "(string \<times> json) list \<Rightarrow> string \<Rightarrow> bool" where
  \<comment> \<open>the object has an own property of that name\<close>
  "has_own kvs k = (k \<in> fst ` set kvs)"

text \<open>
  \<open>String(v)\<close> and \<open>Number(v)\<close> convert an object through its \<open>toString\<close> and
  \<open>valueOf\<close> methods. An object read from JSON inherits both from \<open>Object.prototype\<close>:
  \<open>toString\<close> gives \<open>[object Object]\<close>, and \<open>valueOf\<close> gives the object itself, which
  is no primitive value and so is passed over. An own property named \<open>toString\<close> hides
  the inherited method, and its value, read from JSON, is not callable: then neither
  method yields a primitive value and the conversion throws a \<open>TypeError\<close>. An array
  joins the strings of its elements with commas, \<open>null\<close> elements as empty, and throws
  when one of its elements does.
\<close>

fun String_js :: "json \<Rightarrow> error + string" where
  \<comment> \<open>\<open>String(v)\<close>\<close>
  "String_js JNull = Inr ''null''"
| "String_js (JBool b) = Inr (if b then ''true'' else ''false'')"
| "String_js (JNum n) = Inr (show_int n)"
| "String_js (JStr s) = Inr s"
| "String_js (JArr xs) =
     (case all_or_first_error (map (\<lambda>x. if x = JNull then Inr [] else String_js x) xs) of
        Inl e \<Rightarrow> Inl e
      | Inr ss \<Rightarrow> Inr (join_with '','' ss))"
| "String_js (JObj kvs) = (if has_own kvs ''toString'' then Inl TypeError else Inr ''[object Object]'')"

definition is_digit :: "char \<Rightarrow> bool" where
  "is_digit c = (48 \<le> (of_char c :: nat) \<and> (of_char c :: nat) \<le> 57)"

definition digits_value :: "string \<Rightarrow> nat" where
  "digits_value ds = foldl (\<lambda>acc c. 10 * acc + ((of_char c :: nat) - 48)) 0 ds"

definition string_to_number :: "string \<Rightarrow> int option" where
  \<comment> \<open>\<open>Number(s)\<close> for a string: \<open>None\<close> is \<open>NaN\<close>. Covers the empty string and signed
      decimal integers; a literal with a fraction, an exponent, a radix prefix or
      \<open>Infinity\<close> is outside the integers of this model and reads as \<open>NaN\<close>.\<close>
  "string_to_number s =
     (let t = trim s
      in if t = [] then Some 0
         else case t of
           c # ds \<Rightarrow>
             if c = CHR ''-'' \<and> ds \<noteq> [] \<and> list_all is_digit ds then Some (- int (digits_value ds))
             else if c = CHR ''+'' \<and> ds \<noteq> [] \<and> list_all is_digit ds then Some (int (digits_value ds))
             else if list_all is_digit t then Some (int (digits_value t))
             else None)"

fun Number_js :: "json option \<Rightarrow> error + int option" where
  \<comment> \<open>\<open>Number(v)\<close>; \<open>Inr None\<close> is \<open>NaN\<close>. An array or object is converted to its
      string first, which can throw.\<close>
  "Number_js None = Inr None"
| "Number_js (Some JNull) = Inr (Some 0)"
| "Number_js (Some (JBool b)) = Inr (Some (if b then 1 else 0))"
| "Number_js (Some (JNum n)) = Inr (Some n)"
| "Number_js (Some (JStr s)) = Inr (string_to_number s)"
| "Number_js (Some v) = (case String_js v of Inl e \<Rightarrow> Inl e | Inr s \<Rightarrow> Inr (string_to_number s))"

subsection \<open>JSON.stringify\<close>

definition hex_char :: "nat \<Rightarrow> char" where
  "hex_char d = (if d < 10 then char_of (48 + d) else char_of (87 + d))"

definition escape_char :: "char \<Rightarrow> string" where
  "escape_char c =
     (let n = (of_char c :: nat)
      in if n = 34 then [CHR 0x5C, CHR 0x22]
         else if n = 92 then [CHR 0x5C, CHR 0x5C]
         else if n = 8 then [CHR 0x5C, CHR ''b'']
         else if n = 12 then [CHR 0x5C, CHR ''f'']
         else if n = 10 then [CHR 0x5C, CHR ''n'']
         else if n = 13 then [CHR 0x5C, CHR ''r'']
         else if n = 9 then [CHR 0x5C, CHR ''t'']
         else if n < 32 then [CHR 0x5C, CHR ''u'', CHR ''0'', CHR ''0'', hex_char (n div 16), hex_char (n mod 16)]
         else [c])"

definition quote :: "string \<Rightarrow> string" where
  "quote s = [CHR 0x22] @ concat (map escape_char s) @ [CHR 0x22]"

fun JSON_stringify :: "json \<Rightarrow> string" where
  "JSON_stringify JNull = ''null''"
| "JSON_stringify (JBool b) = (if b then ''true'' else ''false'')"
| "JSON_stringify (JNum n) = show_int n"
| "JSON_stringify (JStr s) = quote s"
| "JSON_stringify (JArr xs) = ''['' @ join_with '','' (map JSON_stringify xs) @ '']''"
| "JSON_stringify (JObj kvs) =
     ''{'' @ join_with '','' (map (\<lambda>kv. quote (fst kv) @ '':'' @ JSON_stringify (snd kv)) kvs) @ ''}''"

definition blob_size :: "string \<Rightarrow> nat" where
  \<comment> \<open>\<open>new Blob([s]).size\<close>: the length of the UTF-8 encoding\<close>
  "blob_size s = sum_list (map (\<lambda>c. if (of_char c :: nat) < 128 then 1 else 2) s)"

section \<open>Tasks\<close>

text \<open>
  A task object as \<open>TaskManager.createTask\<close> builds it, with the field types of the
  \<open>Task\<close> typedef of \<open>js/data/schema.js\<close>. \<open>completedAt = None\<close> is the source's
  \<open>completedAt: null\<close>.
\<close>

record task =
  task_id :: string
  title :: string
  completed :: bool
  priority :: string
  createdAt :: string
  updatedAt :: string
  completedAt :: "string option"

section \<open>TaskManager.sortTasks\<close>

text \<open>
  The comparator of \<open>sortTasks\<close> (taskManager.js, lines 411-431) reads the sort field
  of both tasks, lower-cases titles, maps priorities through
  \<open>priorityOrder[aVal] || 2\<close> with \<open>priorityOrder = { low: 1, medium: 2, high: 3 }\<close>, maps
  \<open>completed\<close> to 1 or 0, and returns -1, 1 or 0; any direction other than \<open>'asc'\<close>
  is descending. A sort field outside \<open>validSortFields\<close> is replaced by
  \<open>'createdAt'\<close>. An omitted \<open>sortBy\<close> is the string \<open>'createdAt'\<close> and an omitted
  \<open>direction\<close> the string \<open>'desc'\<close> (the parameter defaults).

  \<open>priorityOrder\<close> is an object literal, so \<open>priorityOrder[aVal]\<close> also finds the members
  it inherits from \<open>Object.prototype\<close>: for a priority such as \<open>'constructor'\<close> the lookup
  yields a function (for \<open>'__proto__'\<close> the prototype object), which is truthy, so
  \<open>|| 2\<close> does not apply. Compared with \<open><\<close> or \<open>>\<close>, such a value is converted to
  its string: against a number that string is \<open>NaN\<close> and both comparisons are false;
  against another such value the two strings are compared. The string of a built-in
  function begins with \<open>function\<close>, a space and the function's name, and no name here is
  a prefix of another, so the rest of the text never decides a comparison.
\<close>

datatype sort_val =
    SStr string
  | SNum nat
  | SMember string   \<comment> \<open>a member inherited from \<open>Object.prototype\<close>, as the string it converts to\<close>

definition validSortFields :: "string list" where
  "validSortFields = [''createdAt'', ''updatedAt'', ''title'', ''priority'', ''completed'']"

definition native_function :: "string \<Rightarrow> string" where
  "native_function name = ''function '' @ name @ ''() { [native code] }''"

definition inherited_member :: "string \<Rightarrow> string option" where
  \<comment> \<open>the members of \<open>Object.prototype\<close> by property name, each as the string it converts to\<close>
  "inherited_member p =
     map_of [(''constructor'', native_function ''Object''),
             (''hasOwnProperty'', native_function ''hasOwnProperty''),
             (''isPrototypeOf'', native_function ''isPrototypeOf''),
             (''propertyIsEnumerable'', native_function ''propertyIsEnumerable''),
             (''toLocaleString'', native_function ''toLocaleString''),
             (''toString'', native_function ''toString''),
             (''valueOf'', native_function ''valueOf''),
             (''__defineGetter__'', native_function ''__defineGetter__''),
             (''__defineSetter__'', native_function ''__defineSetter__''),
             (''__lookupGetter__'', native_function ''__lookupGetter__''),
             (''__lookupSetter__'', native_function ''__lookupSetter__''),
             (''__proto__'', ''[object Object]'')] p"

definition priorityOrder :: "string \<Rightarrow> sort_val" where
  \<comment> \<open>\<open>priorityOrder[aVal] || 2\<close>\<close>
  "priorityOrder p =
     (if p = ''low'' then SNum 1 else if p = ''medium'' then SNum 2 else if p = ''high'' then SNum 3
      else case inherited_member p of Some txt \<Rightarrow> SMember txt | None \<Rightarrow> SNum 2)"

definition sort_field :: "string \<Rightarrow> string" where
  "sort_field sortBy = (if sortBy \<in> set validSortFields then sortBy else ''createdAt'')"

definition sort_value :: "string \<Rightarrow> task \<Rightarrow> sort_val" where
  "sort_value sortBy a =
     (if sortBy = ''title'' then SStr (toLowerCase (title a))
      else if sortBy = ''priority'' then priorityOrder (priority a)
      else if sortBy = ''completed'' then SNum (if completed a then 1 else 0)
      else if sortBy = ''updatedAt'' then SStr (updatedAt a)
      else SStr (createdAt a))"

fun js_less :: "sort_val \<Rightarrow> sort_val \<Rightarrow> bool" where
  \<comment> \<open>\<open>aVal < bVal\<close>; a string never meets a value of another kind, since both values
      come from the same sort field\<close>
  "js_less (SStr a) (SStr b) = (a < b)"
| "js_less (SNum a) (SNum b) = (a < b)"
| "js_less (SMember a) (SMember b) = (a < b)"
| "js_less _ _ = False"

definition compareTasks :: "string \<Rightarrow> string \<Rightarrow> task \<Rightarrow> task \<Rightarrow> int" where
  "compareTasks sortBy direction a b =
     (let aVal = sort_value sortBy a; bVal = sort_value sortBy b
      in if js_less aVal bVal then (if direction = ''asc'' then - 1 else 1)
         else if js_less bVal aVal then (if direction = ''asc'' then 1 else - 1)
         else 0)"

text \<open>
  \<open>Array.prototype.sort\<close> is stable (ECMAScript 2019): with a consistent comparator it
  returns the one permutation that is ordered by the comparator and keeps elements that
  compare as 0 in their input order. The model computes that permutation by insertion
  from the right, placing each element in front of the first element it does not
  follow. With a comparator that is not consistent the order is left to the
  implementation; on the three-element list with the priorities \<open>high\<close>,
  \<open>constructor\<close>, \<open>low\<close> evaluated below, insertion from the right and the binary
  insertion of V8 give the same result.
\<close>

fun insert_by :: "('a \<Rightarrow> 'a \<Rightarrow> int) \<Rightarrow> 'a \<Rightarrow> 'a list \<Rightarrow> 'a list" where
  "insert_by c x [] = [x]"
| "insert_by c x (y # ys) = (if c x y \<le> 0 then x # y # ys else y # insert_by c x ys)"

definition array_sort :: "('a \<Rightarrow> 'a \<Rightarrow> int) \<Rightarrow> 'a list \<Rightarrow> 'a list" where
  "array_sort c xs = foldr (insert_by c) xs []"


definition sortTasks :: "task list \<Rightarrow> string \<Rightarrow> string \<Rightarrow> task list" where
  "sortTasks tasks sortBy direction =
     array_sort (compareTasks (sort_field sortBy) direction) tasks"

section \<open>StorageService (storage.js)\<close>

definition TASKS :: string where "TASKS = ''todoapp_tasks''"
definition SETTINGS :: string where "SETTINGS = ''todoapp_settings''"
definition UI_STATE :: string where "UI_STATE = ''todoapp_ui_state''"
definition VERSION :: string where "VERSION = ''todoapp_version''"

definition STORAGE_KEYS :: "string list" where
  "STORAGE_KEYS = [TASKS, SETTINGS, UI_STATE, VERSION]"

definition CURRENT_VERSION :: string where "CURRENT_VERSION = ''1.0.0''"

definition MAX_STORAGE_SIZE :: nat where "MAX_STORAGE_SIZE = 5 * 1024 * 1024"

text \<open>
  The service and the \<open>localStorage\<close> it wraps. \<open>items\<close> is the content of
  \<open>localStorage\<close>. \<open>host_accepts items key value\<close> says whether the host lets
  \<open>localStorage.setItem(key, value)\<close> through; when it does not, the host throws
  \<open>QuotaExceededError\<close> and stores nothing (the host's own quota counts every key of the
  origin, and is not under the application's control).
\<close>

record storage =
  isAvailable :: bool
  items :: "string \<rightharpoonup> string"
  host_accepts :: "(string \<rightharpoonup> string) \<Rightarrow> string \<Rightarrow> string \<Rightarrow> bool"
  setItem_log :: "(string \<times> string) list"
    \<comment> \<open>the calls of \<open>localStorage.setItem\<close> that stored a value, oldest first;
        the source keeps no such list, the model does so that writes can be counted\<close>

text \<open>
  The result of \<open>getStorageInfo\<close>, without its \<open>percentage\<close> (a floating-point ratio that
  nothing reads).
\<close>

record storage_info =
  used :: nat
  total :: nat
  available :: int
  info_isAvailable :: bool

definition item_size :: "storage \<Rightarrow> string \<Rightarrow> nat" where
  \<comment> \<open>the body of the \<open>forEach\<close> of \<open>getStorageInfo\<close>: an unset or empty value adds 0\<close>
  "item_size s key = (case items s key of None \<Rightarrow> 0 | Some v \<Rightarrow> if v = [] then 0 else blob_size v)"

definition getStorageInfo :: "storage \<Rightarrow> storage_info" where
  "getStorageInfo s =
     (if \<not> isAvailable s
      then \<lparr>used = 0, total = 0, available = 0, info_isAvailable = False\<rparr>
      else let u = sum_list (map (item_size s) STORAGE_KEYS)
           in \<lparr>used = u, total = MAX_STORAGE_SIZE,
               available = int MAX_STORAGE_SIZE - int u, info_isAvailable = True\<rparr>)"

definition setItem :: "string \<Rightarrow> json \<Rightarrow> storage \<Rightarrow> error option \<times> storage" where
  \<comment> \<open>\<open>Some e\<close>: the call throws \<open>e\<close>; the second component is the service afterwards\<close>
  "setItem key v s =
     (if \<not> isAvailable s then (Some StorageUnavailable, s)
      else let serialized = JSON_stringify v;
               size = blob_size serialized;
               storageInfo = getStorageInfo s
           in if used storageInfo + size > MAX_STORAGE_SIZE then (Some StorageQuotaExceeded, s)
              else if \<not> host_accepts s (items s) key serialized then (Some StorageQuotaExceeded, s)
              else (None, s\<lparr>items := (items s)(key \<mapsto> serialized),
                             setItem_log := setItem_log s @ [(key, serialized)]\<rparr>))"

definition getItem :: "(string \<Rightarrow> json option) \<Rightarrow> string \<Rightarrow> storage \<Rightarrow> json" where
  \<comment> \<open>\<open>JSON_parse\<close> is the host's \<open>JSON.parse\<close>: \<open>None\<close> when it throws. \<open>JNull\<close> is
      the \<open>null\<close> the source returns for an unavailable store, an unset or empty value
      and a value that does not parse.\<close>
  "getItem JSON_parse key s =
     (if \<not> isAvailable s then JNull
      else case items s key of
             None \<Rightarrow> JNull
           | Some v \<Rightarrow> if v = [] then JNull
                       else (case JSON_parse v of None \<Rightarrow> JNull | Some j \<Rightarrow> j))"

subsection \<open>Validation of persisted data\<close>

definition valid_task_object :: "json \<Rightarrow> bool" where
  \<comment> \<open>the \<open>filter\<close> callback of \<open>validateTasks\<close>\<close>
  "valid_task_object t =
     (if \<not> truthy t \<or> \<not> isObject t then False
      else if \<not> truthy_opt (get_prop t ''id'') \<or> \<not> truthy_opt (get_prop t ''title'') then False
      else True)"

definition or_else :: "json option \<Rightarrow> json \<Rightarrow> json" where
  \<comment> \<open>\<open>v || d\<close>\<close>
  "or_else v d = (case v of None \<Rightarrow> d | Some x \<Rightarrow> if truthy x then x else d)"

definition prop_or_null :: "json \<Rightarrow> string \<Rightarrow> json" where
  \<comment> \<open>\<open>t.k\<close> for a property the filter has found truthy\<close>
  "prop_or_null t k = (case get_prop t k of None \<Rightarrow> JNull | Some v \<Rightarrow> v)"

definition choice_setting :: "json option \<Rightarrow> string list \<Rightarrow> string \<Rightarrow> json" where
  \<comment> \<open>\<open>[...].includes(v) ? v : d\<close>, for a list of strings\<close>
  "choice_setting v allowed d =
     (case v of Some (JStr s) \<Rightarrow> if s \<in> set allowed then JStr s else JStr d | _ \<Rightarrow> JStr d)"

definition validated_task :: "string \<Rightarrow> json \<Rightarrow> error + json" where
  \<comment> \<open>the \<open>map\<close> callback of \<open>validateTasks\<close>, on an element the filter kept;
      \<open>String(task.title)\<close> is the one expression of the object literal that can throw\<close>
  "validated_task now t =
     (case String_js (prop_or_null t ''title'') of
        Inl e \<Rightarrow> Inl e
      | Inr s \<Rightarrow>
          Inr (JObj [(''id'', prop_or_null t ''id''),
                     (''title'', JStr (substring0 500 s)),
                     (''completed'', JBool (truthy_opt (get_prop t ''completed''))),
                     (''priority'', choice_setting (get_prop t ''priority'') [''low'', ''medium'', ''high''] ''medium''),
                     (''createdAt'', or_else (get_prop t ''createdAt'') (JStr now)),
                     (''updatedAt'', or_else (get_prop t ''updatedAt'') (JStr now)),
                     (''completedAt'', or_else (get_prop t ''completedAt'') JNull)]))"

definition validateTasks :: "string \<Rightarrow> json option \<Rightarrow> error + json list" where
  "validateTasks now tasks =
     (case tasks of
        Some (JArr xs) \<Rightarrow> all_or_first_error (map (validated_task now) (filter valid_task_object xs))
      | _ \<Rightarrow> Inl TasksMustBeArray)"

definition getDefaultSettings :: json where
  "getDefaultSettings =
     JObj [(''maxTasks'', JNum 1000), (''autoSave'', JBool True), (''confirmDeletion'', JBool True),
           (''showCompletedTasks'', JBool True), (''taskSortBy'', JStr ''createdAt''),
           (''taskSortDirection'', JStr ''desc'')]"

definition bool_setting :: "json \<Rightarrow> string \<Rightarrow> bool \<Rightarrow> json" where
  \<comment> \<open>\<open>Boolean(settings.k !== undefined ? settings.k : defaults.k)\<close>\<close>
  "bool_setting settings k d =
     JBool (case get_prop settings k of None \<Rightarrow> d | Some v \<Rightarrow> truthy v)"

definition settings_object :: "int option \<Rightarrow> json \<Rightarrow> json" where
  \<comment> \<open>the object \<open>validateSettings\<close> returns, once \<open>Number(settings.maxTasks)\<close> has
      given \<open>n\<close> (\<open>None\<close> is \<open>NaN\<close>)\<close>
  "settings_object n settings =
     JObj [(''maxTasks'',
              JNum (max 1 (min (case n of None \<Rightarrow> 1000 | Some k \<Rightarrow> if k = 0 then 1000 else k) 10000))),
           (''autoSave'', bool_setting settings ''autoSave'' True),
           (''confirmDeletion'', bool_setting settings ''confirmDeletion'' True),
           (''showCompletedTasks'', bool_setting settings ''showCompletedTasks'' True),
           (''taskSortBy'',
              choice_setting (get_prop settings ''taskSortBy'')
                [''createdAt'', ''updatedAt'', ''title'', ''priority''] ''createdAt''),
           (''taskSortDirection'',
              choice_setting (get_prop settings ''taskSortDirection'') [''asc'', ''desc''] ''desc'')]"

definition validateSettings :: "json \<Rightarrow> error + json" where
  \<comment> \<open>\<open>Number(settings.maxTasks)\<close> is the one expression that can throw\<close>
  "validateSettings settings =
     (if \<not> truthy settings \<or> \<not> isObject settings then Inr getDefaultSettings
      else case Number_js (get_prop settings ''maxTasks'') of
             Inl e \<Rightarrow> Inl e
           | Inr n \<Rightarrow> Inr (settings_object n settings))"

definition getDefaultUIState :: json where
  "getDefaultUIState =
     JObj [(''theme'', JStr ''light''), (''sidebarOpen'', JBool False),
           (''filters'', JObj [(''status'', JStr ''all''), (''priority'', JStr ''all''),
                               (''searchQuery'', JStr [])])]"

definition opt_prop :: "json option \<Rightarrow> string \<Rightarrow> json option" where
  \<comment> \<open>\<open>v?.k\<close>\<close>
  "opt_prop v k = (case v of None \<Rightarrow> None | Some JNull \<Rightarrow> None | Some x \<Rightarrow> get_prop x k)"

definition validateUIState :: "json \<Rightarrow> error + json" where
  \<comment> \<open>\<open>String(uiState.filters?.searchQuery || '')\<close> is the one expression that can throw\<close>
  "validateUIState uiState =
     (if \<not> truthy uiState \<or> \<not> isObject uiState then Inr getDefaultUIState
      else
        case String_js (or_else (opt_prop (get_prop uiState ''filters'') ''searchQuery'') (JStr [])) of
          Inl e \<Rightarrow> Inl e
        | Inr searchQuery \<Rightarrow>
            Inr (JObj [(''theme'', choice_setting (get_prop uiState ''theme'') [''light'', ''dark''] ''light''),
                       (''sidebarOpen'', JBool (truthy_opt (get_prop uiState ''sidebarOpen''))),
                       (''filters'',
                          JObj [(''status'',
                                   choice_setting (opt_prop (get_prop uiState ''filters'') ''status'')
                                     [''all'', ''active'', ''completed''] ''all''),
                                (''priority'',
                                   choice_setting (opt_prop (get_prop uiState ''filters'') ''priority'')
                                     [''all'', ''low'', ''medium'', ''high''] ''all''),
                                (''searchQuery'', JStr (substring0 200 searchQuery))])]))"

definition filterUIStateForStorage :: "json \<Rightarrow> json" where
  \<comment> \<open>\<open>{ theme: uiState.theme, filters: uiState.filters }\<close>; a property whose value is
      \<open>undefined\<close> is left out, as \<open>JSON.stringify\<close> leaves it out\<close>
  "filterUIStateForStorage uiState =
     JObj ((case get_prop uiState ''theme'' of None \<Rightarrow> [] | Some v \<Rightarrow> [(''theme'', v)]) @
           (case get_prop uiState ''filters'' of None \<Rightarrow> [] | Some v \<Rightarrow> [(''filters'', v)]))"

definition validateImportData :: "json \<Rightarrow> error + bool" where
  \<comment> \<open>\<open>data.version.startsWith\<close> is a \<open>TypeError\<close> when \<open>version\<close> is truthy and not a
      string\<close>
  "validateImportData data =
     (if \<not> truthy data \<or> \<not> isObject data then Inr False
      else if \<not> truthy_opt (get_prop data ''tasks'') \<or> \<not> isArray (get_prop data ''tasks'') then Inr False
      else case get_prop data ''version'' of
             None \<Rightarrow> Inr True
           | Some (JStr v) \<Rightarrow> if v \<noteq> [] \<and> \<not> startsWith v ''1.'' then Inr False else Inr True
           | Some v \<Rightarrow> if truthy v then Inl TypeError else Inr True)"

subsection \<open>Saving and loading\<close>

text \<open>
  The \<open>save\<close> operations catch every error of their body and return \<open>false\<close>; the
  \<open>load\<close> operations catch every error and return a default. The events they emit
  carry no state and are not modelled. \<open>now\<close> is the value of
  \<open>new Date().toISOString()\<close> during the call.
\<close>

definition saveTasks :: "string \<Rightarrow> json option \<Rightarrow> storage \<Rightarrow> bool \<times> storage" where
  "saveTasks now tasks s =
     (case validateTasks now tasks of
        Inl e \<Rightarrow> (False, s)
      | Inr validatedTasks \<Rightarrow>
          (case setItem TASKS
                  (JObj [(''tasks'', JArr validatedTasks), (''timestamp'', JStr now),
                         (''version'', JStr CURRENT_VERSION)]) s of
             (Some e, s') \<Rightarrow> (False, s')
           | (None, s') \<Rightarrow> (True, s')))"

definition loadTasks ::
  "(string \<Rightarrow> json option) \<Rightarrow> string \<Rightarrow> storage \<Rightarrow> json list \<times> storage" where
  "loadTasks JSON_parse now s =
     (let data = getItem JSON_parse TASKS s
      in if \<not> truthy data then ([], s)
         else case data of
           JArr xs \<Rightarrow>
             (case validateTasks now (Some data) of
                Inl e \<Rightarrow> ([], s)
              | Inr tasks \<Rightarrow> (tasks, snd (saveTasks now (Some (JArr tasks)) s)))
         | _ \<Rightarrow>
             if truthy_opt (get_prop data ''tasks'') \<and> isArray (get_prop data ''tasks'')
             then (case validateTasks now (get_prop data ''tasks'') of
                     Inl e \<Rightarrow> ([], s) | Inr tasks \<Rightarrow> (tasks, s))
             else ([], s))"

definition saveSettings :: "string \<Rightarrow> json \<Rightarrow> storage \<Rightarrow> bool \<times> storage" where
  "saveSettings now settings s =
     (case validateSettings settings of
        Inl e \<Rightarrow> (False, s)
      | Inr validatedSettings \<Rightarrow>
          (case setItem SETTINGS
                  (JObj [(''settings'', validatedSettings), (''timestamp'', JStr now),
                         (''version'', JStr CURRENT_VERSION)]) s of
             (Some e, s') \<Rightarrow> (False, s')
           | (None, s') \<Rightarrow> (True, s')))"

definition loadSettings :: "(string \<Rightarrow> json option) \<Rightarrow> storage \<Rightarrow> json" where
  "loadSettings JSON_parse s =
     (let data = getItem JSON_parse SETTINGS s
      in if \<not> truthy data then getDefaultSettings
         else case validateSettings (or_else (get_prop data ''settings'') data) of
                Inl e \<Rightarrow> getDefaultSettings
              | Inr settings \<Rightarrow> settings)"

definition saveUIState :: "string \<Rightarrow> json \<Rightarrow> storage \<Rightarrow> bool \<times> storage" where
  "saveUIState now uiState s =
     (case setItem UI_STATE
             (JObj [(''uiState'', filterUIStateForStorage uiState), (''timestamp'', JStr now),
                    (''version'', JStr CURRENT_VERSION)]) s of
        (Some e, s') \<Rightarrow> (False, s')
      | (None, s') \<Rightarrow> (True, s'))"

definition loadUIState :: "(string \<Rightarrow> json option) \<Rightarrow> storage \<Rightarrow> json" where
  "loadUIState JSON_parse s =
     (let data = getItem JSON_parse UI_STATE s
      in if \<not> truthy data then getDefaultUIState
         else case validateUIState (or_else (get_prop data ''uiState'') data) of
                Inl e \<Rightarrow> getDefaultUIState
              | Inr uiState \<Rightarrow> uiState)"

subsection \<open>Export and import\<close>

definition exportData ::
  "(string \<Rightarrow> json option) \<Rightarrow> string \<Rightarrow> storage \<Rightarrow> json \<times> storage" where
  \<comment> \<open>the object the source serializes (its \<open>metadata.userAgent\<close> left out), and the
      service after \<open>loadTasks\<close>, which rewrites a record in the legacy format\<close>
  "exportData JSON_parse now s =
     (let (tasks, s') = loadTasks JSON_parse now s;
          settings = loadSettings JSON_parse s';
          uiState = loadUIState JSON_parse s'
      in (JObj [(''version'', JStr CURRENT_VERSION), (''timestamp'', JStr now),
                (''tasks'', JArr tasks), (''settings'', settings), (''uiState'', uiState),
                (''metadata'', JObj [(''taskCount'', JNum (int (length tasks))),
                                     (''exportedBy'', JStr ''Todo List MVP'')])], s'))"

record import_result =
  success :: bool
  imported_tasks :: nat
  imported_settings :: nat
  imported_uiState :: nat

definition array_length :: "json option \<Rightarrow> nat" where
  \<comment> \<open>\<open>data.tasks?.length || 0\<close>\<close>
  "array_length v = (case v of Some (JArr xs) \<Rightarrow> length xs | Some (JStr s) \<Rightarrow> length s | _ \<Rightarrow> 0)"

text \<open>
  \<open>importData\<close> (storage.js, lines 218-268). Every statement of the inner \<open>try\<close> block
  is total: \<open>saveTasks\<close>, \<open>saveSettings\<close> and \<open>saveUIState\<close> catch their own errors and
  return \<open>false\<close>, a value the block does not read, and dispatching an event does not
  propagate an exception of a listener. So nothing in the block throws, the
  \<open>catch (importError)\<close> that would restore the backup has no trigger, and the model has
  no branch for it. The backup that \<open>exportData\<close> returned is not used again.
\<close>

definition importData ::
  "(string \<Rightarrow> json option) \<Rightarrow> string \<Rightarrow> string \<Rightarrow> storage \<Rightarrow> (error + import_result) \<times> storage" where
  "importData JSON_parse now jsonData s =
     (case JSON_parse jsonData of
        None \<Rightarrow> (Inl ImportFailed, s)
      | Some data \<Rightarrow>
          (case validateImportData data of
             Inl e \<Rightarrow> (Inl ImportFailed, s)
           | Inr False \<Rightarrow> (Inl ImportFailed, s)
           | Inr True \<Rightarrow>
               (let (backupData, s0) = exportData JSON_parse now s;
                    s1 = (if truthy_opt (get_prop data ''tasks'')
                          then snd (saveTasks now (get_prop data ''tasks'') s0) else s0);
                    s2 = (case get_prop data ''settings'' of
                            Some v \<Rightarrow> if truthy v then snd (saveSettings now v s1) else s1
                          | None \<Rightarrow> s1);
                    s3 = (case get_prop data ''uiState'' of
                            Some v \<Rightarrow> if truthy v then snd (saveUIState now v s2) else s2
                          | None \<Rightarrow> s2)
                in (Inr \<lparr>success = True,
                         imported_tasks = array_length (get_prop data ''tasks''),
                         imported_settings = (if truthy_opt (get_prop data ''settings'') then 1 else 0),
                         imported_uiState = (if truthy_opt (get_prop data ''uiState'') then 1 else 0)\<rparr>,
                    s3))))"

subsection \<open>Initialization\<close>

text \<open>
  The constructor of \<open>StorageService\<close> runs \<open>initializeStorage\<close>: when the stored version
  is missing or differs from \<open>CURRENT_VERSION\<close>, \<open>handleVersionMigration\<close> writes the
  current one with \<open>setItem\<close>; then \<open>validateStoredData\<close> removes a tasks record that
  holds no array of tasks. An error of \<open>setItem\<close> is caught and logged, and ends the
  initialization.
\<close>

definition handleVersionMigration :: "storage \<Rightarrow> error option \<times> storage" where
  "handleVersionMigration s = setItem VERSION (JStr CURRENT_VERSION) s"

definition validateStoredData :: "(string \<Rightarrow> json option) \<Rightarrow> storage \<Rightarrow> storage" where
  \<comment> \<open>\<open>validateImportData({ tasks: Array.isArray(tasks) ? tasks : tasks.tasks })\<close>; the
      object has no \<open>version\<close>, so the check does not throw\<close>
  "validateStoredData JSON_parse s =
     (let tasks = getItem JSON_parse TASKS s;
          candidate = (if isArray (Some tasks) then Some tasks else get_prop tasks ''tasks'')
      in if truthy tasks
            \<and> validateImportData (JObj (case candidate of None \<Rightarrow> [] | Some v \<Rightarrow> [(''tasks'', v)]))
                \<noteq> Inr True
         then s\<lparr>items := (items s)(TASKS := None)\<rparr>
         else s)"

definition initializeStorage :: "(string \<Rightarrow> json option) \<Rightarrow> storage \<Rightarrow> storage" where
  "initializeStorage JSON_parse s =
     (if \<not> isAvailable s then s
      else let storedVersion = getItem JSON_parse VERSION s
           in if \<not> truthy storedVersion \<or> storedVersion \<noteq> JStr CURRENT_VERSION
              then (case handleVersionMigration s of
                      (Some e, s') \<Rightarrow> s'
                    | (None, s') \<Rightarrow> validateStoredData JSON_parse s')
              else validateStoredData JSON_parse s)"

section \<open>StateManager (js/modules/stateManager.js)\<close>

text \<open>
  The state object. An update function returns the next state object itself (it is
  not merged into the current one), and the task operations return \<open>{ tasks: ... }\<close>,
  so every property of the state can be missing: \<open>None\<close> is \<open>undefined\<close>. The
  \<open>filters\<close>, \<open>ui\<close> and \<open>settings\<close> objects are kept as JSON values.
\<close>

record statistics_rec =
  totalTasks :: nat
  completedTasks :: nat
  activeTasks :: nat
  todayCreated :: nat
  todayCompleted :: nat

record app_state =
  tasks :: "task list option"
  filters :: "json option"
  ui :: "json option"
  settings :: "json option"
  statistics :: "statistics_rec option"
  lastUpdated :: "string option"

record history_entry =
  h_state :: app_state
  h_timestamp :: string
  h_source :: string

text \<open>
  One record holds what the three singletons own: the \<open>StateManager\<close> (\<open>state\<close>,
  \<open>history\<close>, \<open>isUpdating\<close>), the \<open>StorageService\<close> (\<open>store\<close>) and the
  \<open>TaskManager\<close> (\<open>cache\<close>, and \<open>save_timer\<close>: the \<open>timeout\<close> variable of its
  debounced save with the arguments the pending call will get, as the time in
  milliseconds at which it is due). \<open>hide_timers\<close> are the due times of the pending
  \<open>hideNotification\<close> timeouts; the model records them and does not run them.
  \<open>console\<close> lists the \<open>console.warn\<close> and \<open>console.error\<close> lines. \<open>clock\<close> is the
  time in milliseconds. Values are copied wherever the source calls \<open>deepClone\<close>; on
  values a copy is the value.
\<close>

record world =
  state :: app_state
  history :: "history_entry list"
  isUpdating :: bool
  console :: "string list"
  store :: storage
  cache :: "string \<rightharpoonup> task"
  save_timer :: "(nat \<times> task list option) option"
  hide_timers :: "nat list"
  clock :: nat

text \<open>
  A subscriber is called with the new state, the previous state and the source label; it
  may do anything to the world, and it may throw: the result is whether it threw, and
  the world it left. The set \<open>this.subscribers\<close> and the list \<open>this.middleware\<close>
  are parameters of the operations. A middleware returns a state, a falsy value
  (\<open>Some None\<close>) or throws (\<open>None\<close>).
\<close>

type_synonym subscriber = "app_state \<Rightarrow> app_state \<Rightarrow> string \<Rightarrow> world \<Rightarrow> bool \<times> world"

type_synonym middleware = "app_state \<Rightarrow> app_state \<Rightarrow> string \<Rightarrow> app_state option option"

datatype update =
    UpdFn "app_state \<Rightarrow> error + app_state"   \<comment> \<open>\<open>setState(state => ...)\<close>\<close>
  | UpdTasks "task list"                       \<comment> \<open>\<open>setState({ tasks })\<close>, the one object the source passes\<close>

definition maxHistorySize :: nat where "maxHistorySize = 50"

definition only_tasks :: "task list \<Rightarrow> app_state" where
  \<comment> \<open>the object \<open>{ tasks: ts }\<close>\<close>
  "only_tasks ts = \<lparr>tasks = Some ts, filters = None, ui = None, settings = None,
                     statistics = None, lastUpdated = None\<rparr>"

definition only_ui :: "json \<Rightarrow> app_state" where
  \<comment> \<open>the object \<open>{ ui: u }\<close>\<close>
  "only_ui u = \<lparr>tasks = None, filters = None, ui = Some u, settings = None,
                 statistics = None, lastUpdated = None\<rparr>"

definition applyUpdates :: "app_state \<Rightarrow> update \<Rightarrow> error + app_state" where
  "applyUpdates currentState updates =
     (case updates of
        UpdFn f \<Rightarrow> f currentState
      | UpdTasks ts \<Rightarrow> Inr (currentState\<lparr>tasks := Some ts\<rparr>))"

definition applyMiddleware ::
  "middleware list \<Rightarrow> app_state \<Rightarrow> app_state \<Rightarrow> string \<Rightarrow> world \<Rightarrow> app_state \<times> world" where
  \<comment> \<open>\<open>middleware(state, previousState, source) || state\<close> for each middleware in turn; one
      that throws is logged with \<open>console.error\<close> and leaves the state as it was\<close>
  "applyMiddleware mws newState previousState source w =
     foldl (\<lambda>(st, w') m. case m st previousState source of
                             None \<Rightarrow> (st, w'\<lparr>console := console w' @ [''error: StateManager.applyMiddleware'']\<rparr>)
                           | Some None \<Rightarrow> (st, w')
                           | Some (Some st') \<Rightarrow> (st', w')) (newState, w) mws"

definition addToHistory :: "app_state \<Rightarrow> string \<Rightarrow> string \<Rightarrow> world \<Rightarrow> world" where
  "addToHistory st source now w =
     (let h = history w @ [\<lparr>h_state = st, h_timestamp = now, h_source = source\<rparr>]
      in w\<lparr>history := (if length h > maxHistorySize then tl h else h)\<rparr>)"

definition today_of :: "string \<Rightarrow> string" where
  \<comment> \<open>\<open>now.toISOString().split('T')[0]\<close>\<close>
  "today_of now = takeWhile (\<lambda>c. c \<noteq> CHR ''T'') now"

definition completed_today :: "string \<Rightarrow> task \<Rightarrow> bool" where
  \<comment> \<open>\<open>task.completed && task.completedAt && task.completedAt.startsWith(today)\<close>\<close>
  "completed_today today t =
     (completed t \<and> (case completedAt t of None \<Rightarrow> False
                                          | Some c \<Rightarrow> c \<noteq> [] \<and> startsWith c today))"

definition updateStatistics :: "string \<Rightarrow> app_state \<Rightarrow> error + app_state" where
  \<comment> \<open>\<open>tasks.length\<close> is a \<open>TypeError\<close> when the state has no \<open>tasks\<close>\<close>
  "updateStatistics now st =
     (case tasks st of
        None \<Rightarrow> Inl TypeError
      | Some ts \<Rightarrow>
          Inr (st\<lparr>statistics := Some
            \<lparr>totalTasks = length ts,
             completedTasks = length (filter completed ts),
             activeTasks = length (filter (\<lambda>t. \<not> completed t) ts),
             todayCreated = length (filter (\<lambda>t. startsWith (createdAt t) (today_of now)) ts),
             todayCompleted = length (filter (completed_today (today_of now)) ts)\<rparr>\<rparr>))"

definition notifySubscribers :: "subscriber list \<Rightarrow> app_state \<Rightarrow> string \<Rightarrow> world \<Rightarrow> world" where
  \<comment> \<open>every subscriber gets the state object that was current when the notification
      began; one that throws is logged, and the next one runs\<close>
  "notifySubscribers subs previousState source w =
     foldl (\<lambda>w' callback.
              case callback (state w) previousState source w' of
                (True, w'') \<Rightarrow> w''\<lparr>console := console w'' @ [''error: StateManager.notifySubscribers'']\<rparr>
              | (False, w'') \<Rightarrow> w'') w subs"

definition ignored :: "world \<Rightarrow> world" where
  \<comment> \<open>the guard of \<open>setState\<close>: \<open>console.warn\<close> and return\<close>
  "ignored w = w\<lparr>console := console w @ [''warn: State update called during state update, ignoring'']\<rparr>"

definition handleStateError :: "world \<Rightarrow> world" where
  \<comment> \<open>the \<open>catch\<close> of \<open>setState\<close>: \<open>logError\<close>, then \<open>handleStateError\<close>, whose
      \<open>showNotification\<close> calls \<open>setState\<close> while the update is still in progress (the
      guard ignores it) and then sets the timeout that will hide the notification\<close>
  "handleStateError w =
     (let w1 = w\<lparr>console := console w @ [''error: StateManager.setState'',
                                          ''error: StateManager.handleStateError'']\<rparr>;
          w2 = ignored w1
      in w2\<lparr>hide_timers := hide_timers w2 @ [clock w2 + 3000]\<rparr>)"

definition setState ::
  "subscriber list \<Rightarrow> middleware list \<Rightarrow> string \<Rightarrow> update \<Rightarrow> string \<Rightarrow> world \<Rightarrow> world" where
  "setState subs mws now updates source w =
     (if isUpdating w then ignored w
      else
        let w1 = w\<lparr>isUpdating := True\<rparr>;
            previousState = state w1;
            w' =
              (case applyUpdates (state w1) updates of
                 Inl e \<Rightarrow> handleStateError w1
               | Inr newState \<Rightarrow>
                   (case applyMiddleware mws newState previousState source w1 of
                      (processedState, w1') \<Rightarrow>
                        (let w2 = w1'\<lparr>state := processedState\<lparr>lastUpdated := Some now\<rparr>\<rparr>;
                             w3 = addToHistory previousState source now w2
                         in case updateStatistics now (state w3) of
                              Inl e \<Rightarrow> handleStateError w3
                            | Inr st \<Rightarrow> notifySubscribers subs previousState source (w3\<lparr>state := st\<rparr>))))
        in w'\<lparr>isUpdating := False\<rparr>)"

subsection \<open>Task operations\<close>

definition task_json :: "task \<Rightarrow> json" where
  "task_json t =
     JObj [(''id'', JStr (task_id t)), (''title'', JStr (title t)),
           (''completed'', JBool (completed t)), (''priority'', JStr (priority t)),
           (''createdAt'', JStr (createdAt t)), (''updatedAt'', JStr (updatedAt t)),
           (''completedAt'', (case completedAt t of None \<Rightarrow> JNull | Some c \<Rightarrow> JStr c))]"

definition tasks_json :: "task list option \<Rightarrow> json option" where
  "tasks_json ts = map_option (\<lambda>xs. JArr (map task_json xs)) ts"

definition persist :: "string \<Rightarrow> world \<Rightarrow> world" where
  \<comment> \<open>\<open>storage.saveTasks(this.state.tasks)\<close>\<close>
  "persist now w = w\<lparr>store := snd (saveTasks now (tasks_json (tasks (state w))) (store w))\<rparr>"

text \<open>
  \<open>addTask\<close> is modelled on the argument its caller \<open>TaskManager.createTask\<close> builds: an
  object with all seven properties, so that the spread \<open>...taskData\<close> overrides every
  default of the object literal and the task is the argument.
\<close>

definition addTask ::
  "subscriber list \<Rightarrow> middleware list \<Rightarrow> string \<Rightarrow> task \<Rightarrow> world \<Rightarrow> task \<times> world" where
  "addTask subs mws now taskData w =
     (let task = taskData;
          w1 = setState subs mws now
                 (UpdFn (\<lambda>st. case tasks st of
                                 None \<Rightarrow> Inl TypeError
                               | Some ts \<Rightarrow> Inr (only_tasks (ts @ [task])))) ''addTask'' w
      in (task, persist now w1))"

record task_patch =
  p_title :: "string option"
  p_completed :: "bool option"
  p_completedAt :: "string option option"
  p_priority :: "string option"

definition apply_patch :: "task \<Rightarrow> task_patch \<Rightarrow> string \<Rightarrow> task" where
  \<comment> \<open>\<open>{ ...task, ...updates, updatedAt: now }\<close>\<close>
  "apply_patch t u now =
     t\<lparr>title := (case p_title u of None \<Rightarrow> title t | Some x \<Rightarrow> x),
       completed := (case p_completed u of None \<Rightarrow> completed t | Some x \<Rightarrow> x),
       completedAt := (case p_completedAt u of None \<Rightarrow> completedAt t | Some x \<Rightarrow> x),
       priority := (case p_priority u of None \<Rightarrow> priority t | Some x \<Rightarrow> x),
       updatedAt := now\<rparr>"

fun findIndex :: "('a \<Rightarrow> bool) \<Rightarrow> 'a list \<Rightarrow> nat option" where
  "findIndex P [] = None"
| "findIndex P (x # xs) = (if P x then Some 0 else map_option Suc (findIndex P xs))"

definition element_at :: "'a list \<Rightarrow> nat \<Rightarrow> 'a option" where
  \<comment> \<open>\<open>xs[i]\<close>: \<open>undefined\<close> out of range\<close>
  "element_at xs i = (if i < length xs then Some (xs ! i) else None)"

definition updateTask ::
  "subscriber list \<Rightarrow> middleware list \<Rightarrow> string \<Rightarrow> string \<Rightarrow> task_patch \<Rightarrow> world
     \<Rightarrow> (error + task option) \<times> world" where
  \<comment> \<open>\<open>Inl\<close>: the call throws. \<open>Inr None\<close>: it returns \<open>undefined\<close>, which it does when a
      subscriber has left fewer tasks than \<open>taskIndex\<close>. The update function gets the
      state that \<open>findIndex\<close> has just searched, so \<open>taskIndex\<close> is in range there; its
      branch for an index out of range is never taken.\<close>
  "updateTask subs mws now taskId updates w =
     (case tasks (state w) of
        None \<Rightarrow> (Inl TypeError, w)
      | Some cur \<Rightarrow>
          (case findIndex (\<lambda>t. task_id t = taskId) cur of
             None \<Rightarrow> (Inl (TaskNotFound taskId), w)
           | Some taskIndex \<Rightarrow>
               (let w1 = setState subs mws now
                           (UpdFn (\<lambda>st. case tasks st of
                                           None \<Rightarrow> Inl TypeError
                                         | Some ts \<Rightarrow>
                                             (case element_at ts taskIndex of
                                                None \<Rightarrow> Inl TypeError
                                              | Some old \<Rightarrow>
                                                  Inr (only_tasks (ts[taskIndex := apply_patch old updates now])))))
                           ''updateTask'' w;
                    w2 = persist now w1
                in case tasks (state w2) of
                     None \<Rightarrow> (Inl TypeError, w2)
                   | Some ts \<Rightarrow> (Inr (element_at ts taskIndex), w2))))"

definition deleteTask ::
  "subscriber list \<Rightarrow> middleware list \<Rightarrow> string \<Rightarrow> string \<Rightarrow> world \<Rightarrow> (error + task) \<times> world" where
  "deleteTask subs mws now taskId w =
     (case tasks (state w) of
        None \<Rightarrow> (Inl TypeError, w)
      | Some cur \<Rightarrow>
          (case find (\<lambda>t. task_id t = taskId) cur of
             None \<Rightarrow> (Inl (TaskNotFound taskId), w)
           | Some task \<Rightarrow>
               (let w1 = setState subs mws now
                           (UpdFn (\<lambda>st. case tasks st of
                                           None \<Rightarrow> Inl TypeError
                                         | Some ts \<Rightarrow> Inr (only_tasks (filter (\<lambda>t. task_id t \<noteq> taskId) ts))))
                           ''deleteTask'' w
                in (Inr task, persist now w1))))"

definition toggleTaskComplete ::
  "subscriber list \<Rightarrow> middleware list \<Rightarrow> string \<Rightarrow> string \<Rightarrow> world
     \<Rightarrow> (error + task option) \<times> world" where
  "toggleTaskComplete subs mws now taskId w =
     (case tasks (state w) of
        None \<Rightarrow> (Inl TypeError, w)
      | Some cur \<Rightarrow>
          (case find (\<lambda>t. task_id t = taskId) cur of
             None \<Rightarrow> (Inl (TaskNotFound taskId), w)
           | Some task \<Rightarrow>
               (let wasCompleted = completed task;
                    updates = \<lparr>p_title = None, p_completed = Some (\<not> wasCompleted),
                               p_completedAt = Some (if \<not> wasCompleted then Some now else None),
                               p_priority = None\<rparr>
                in updateTask subs mws now taskId updates w)))"

definition getState :: "world \<Rightarrow> app_state" where
  \<comment> \<open>\<open>deepClone(this.state)\<close>\<close>
  "getState w = state w"

definition getTask :: "string \<Rightarrow> world \<Rightarrow> error + task option" where
  \<comment> \<open>\<open>this.state.tasks.find(...) || null\<close>; \<open>None\<close> is \<open>null\<close>\<close>
  "getTask taskId w =
     (case tasks (state w) of
        None \<Rightarrow> Inl TypeError
      | Some ts \<Rightarrow> Inr (find (\<lambda>t. task_id t = taskId) ts))"

definition getAllTasks :: "world \<Rightarrow> error + task list" where
  \<comment> \<open>\<open>[...this.state.tasks]\<close>\<close>
  "getAllTasks w = (case tasks (state w) of None \<Rightarrow> Inl TypeError | Some ts \<Rightarrow> Inr ts)"

definition ui_props :: "json option \<Rightarrow> (string \<times> json) list" where
  \<comment> \<open>the own properties a spread \<open>...state.ui\<close> copies\<close>
  "ui_props u = (case u of Some (JObj kvs) \<Rightarrow> kvs | _ \<Rightarrow> [])"

definition showNotification ::
  "subscriber list \<Rightarrow> middleware list \<Rightarrow> string \<Rightarrow> string \<Rightarrow> string \<Rightarrow> string \<Rightarrow> nat \<Rightarrow> world \<Rightarrow> world" where
  \<comment> \<open>\<open>showNotification(message, type, { autoHide: true, duration })\<close>, with the id that
      \<open>generateId()\<close> returns\<close>
  "showNotification subs mws now nid message type duration w =
     (let notification = JObj [(''message'', JStr message), (''type'', JStr type),
                               (''visible'', JBool True), (''autoHide'', JBool True),
                               (''duration'', JNum (int duration)), (''id'', JStr nid)];
          w1 = setState subs mws now
                 (UpdFn (\<lambda>st. Inr (only_ui (JObj (set_prop ''notification'' notification (ui_props (ui st)))))))
                 ''showNotification'' w
      in w1\<lparr>hide_timers := hide_timers w1 @ [clock w1 + duration]\<rparr>)"

section \<open>Input validation (js/utils/validation.js, js/utils/helpers.js)\<close>

definition html_escape :: "char \<Rightarrow> string" where
  "html_escape c =
     (if c = CHR ''&'' then ''&amp;''
      else if c = CHR ''<'' then ''&lt;''
      else if c = CHR ''>'' then ''&gt;''
      else if c = CHR 0xA0 then ''&nbsp;''
      else [c])"

definition sanitizeHtml :: "string \<Rightarrow> string" where
  \<comment> \<open>\<open>div.textContent = str; return div.innerHTML\<close>: the HTML serialization of a text
      node, which escapes the ampersand, the angle brackets and the no-break space\<close>
  "sanitizeHtml str = concat (map html_escape str)"

definition isWordChar :: "char \<Rightarrow> bool" where
  \<comment> \<open>the class \<open>\\w\<close>\<close>
  "isWordChar c =
     (let n = (of_char c :: nat)
      in (48 \<le> n \<and> n \<le> 57) \<or> (65 \<le> n \<and> n \<le> 90) \<or> n = 95 \<or> (97 \<le> n \<and> n \<le> 122))"

fun any_suffix :: "(string \<Rightarrow> bool) \<Rightarrow> string \<Rightarrow> bool" where
  \<comment> \<open>a pattern without anchor matches when it matches at some position\<close>
  "any_suffix P [] = P []"
| "any_suffix P (c # cs) = (P (c # cs) \<or> any_suffix P cs)"

definition includes_ci :: "string \<Rightarrow> string \<Rightarrow> bool" where
  \<comment> \<open>a literal pattern in lower case with the flag \<open>i\<close>\<close>
  "includes_ci s pat = includes_str (toLowerCase s) pat"

definition script_at :: "string \<Rightarrow> bool" where
  \<comment> \<open>\<open><script\\b[^<]*(?:(?!<\\/script>)<[^<]*)*<\\/script>\<close> at the start of \<open>s\<close>: the
      opening tag name ends at a word boundary, and a closing tag follows\<close>
  "script_at s =
     (startsWith (toLowerCase s) ''<script''
      \<and> (case drop 7 s of [] \<Rightarrow> False | c # cs \<Rightarrow> (if isWordChar c then False else True))
      \<and> includes_ci (drop 7 s) ''</script>'')"

definition on_handler_at :: "string \<Rightarrow> bool" where
  \<comment> \<open>\<open>on\\w+\\s*=\<close> at the start of \<open>s\<close>\<close>
  "on_handler_at s =
     (startsWith (toLowerCase s) ''on''
      \<and> takeWhile isWordChar (drop 2 s) \<noteq> []
      \<and> (case dropWhile isWhitespace (dropWhile isWordChar (drop 2 s)) of
            [] \<Rightarrow> False
          | c # cs \<Rightarrow> c = CHR ''=''))"

definition containsDangerousContent :: "string \<Rightarrow> bool" where
  "containsDangerousContent str =
     (any_suffix script_at str
      \<or> includes_ci str ''javascript:''
      \<or> any_suffix on_handler_at str
      \<or> includes_ci str ''<iframe''
      \<or> includes_ci str ''<object''
      \<or> includes_ci str ''<embed''
      \<or> includes_ci str ''<link''
      \<or> includes_ci str ''<meta'')"

definition validateTitle :: "json option \<Rightarrow> string list" where
  \<comment> \<open>the \<open>errors\<close> of the result; \<open>isValid\<close> is \<open>errors.length === 0\<close>\<close>
  "validateTitle t =
     (case t of
        Some (JStr s) \<Rightarrow>
          if s = [] then [''Task title is required and must be text'']
          else if trim s = [] then [''Task title cannot be empty'']
          else (if length (trim s) > 500 then [''Task title must be less than 500 characters''] else [])
               @ (if containsDangerousContent (trim s) then [''Task title contains invalid characters''] else [])
      | _ \<Rightarrow> [''Task title is required and must be text''])"

definition validatePriority :: "json option \<Rightarrow> string list" where
  "validatePriority p =
     (if \<not> truthy_opt p then []
      else case p of
             Some (JStr s) \<Rightarrow>
               if s \<in> set [''low'', ''medium'', ''high''] then []
               else [''Priority must be one of: low, medium, high'']
           | _ \<Rightarrow> [''Priority must be one of: low, medium, high''])"

section \<open>TaskManager (js/modules/taskManager.js)\<close>

definition validateTaskData :: "json option \<Rightarrow> string list" where
  "validateTaskData taskData =
     (case taskData of
        None \<Rightarrow> [''Task data must be an object'']
      | Some d \<Rightarrow>
          if \<not> truthy d \<or> \<not> isObject d then [''Task data must be an object'']
          else validateTitle (get_prop d ''title'')
               @ (if truthy_opt (get_prop d ''priority'') then validatePriority (get_prop d ''priority'')
                  else []))"

definition title_text :: "json option \<Rightarrow> string" where
  \<comment> \<open>\<open>taskData.title\<close>, a string once the data is valid\<close>
  "title_text t = (case t of Some (JStr s) \<Rightarrow> s | _ \<Rightarrow> [])"

definition priority_or_medium :: "json option \<Rightarrow> string" where
  \<comment> \<open>\<open>taskData.priority || 'medium'\<close>, a string once the data is valid\<close>
  "priority_or_medium p = (case p of Some (JStr s) \<Rightarrow> if s = [] then ''medium'' else s | _ \<Rightarrow> ''medium'')"

definition handleError :: "subscriber list \<Rightarrow> middleware list \<Rightarrow> string \<Rightarrow> string \<Rightarrow> string \<Rightarrow> string \<Rightarrow> world \<Rightarrow> world" where
  \<comment> \<open>the \<open>catch\<close> of a \<open>TaskManager\<close> operation: \<open>logError(error, context)\<close>, then
      \<open>handleError\<close>, which shows the notification\<close>
  "handleError subs mws now nid context userMessage w =
     showNotification subs mws now nid userMessage ''error'' 5000
       (w\<lparr>console := console w @ [''error: '' @ context]\<rparr>)"

definition createTask ::
  "subscriber list \<Rightarrow> middleware list \<Rightarrow> string \<Rightarrow> string \<Rightarrow> json option \<Rightarrow> world
     \<Rightarrow> (error + task) \<times> world" where
  \<comment> \<open>\<open>new_id\<close> is what the next call of \<open>generateId()\<close> returns\<close>
  "createTask subs mws now new_id taskData w =
     (let errors = validateTaskData taskData
      in if errors \<noteq> []
         then (Inl (ValidationFailed errors),
               handleError subs mws now new_id ''TaskManager.createTask'' ''Failed to create task'' w)
         else
           let d = (case taskData of Some x \<Rightarrow> x | None \<Rightarrow> JNull);
               task = \<lparr>task_id = new_id,
                       title = sanitizeHtml (trim (title_text (get_prop d ''title''))),
                       completed = False,
                       priority = priority_or_medium (get_prop d ''priority''),
                       createdAt = now, updatedAt = now, completedAt = None\<rparr>;
               (newTask, w1) = addTask subs mws now task w
           in (Inr newTask, w1\<lparr>cache := (cache w1)(task_id task \<mapsto> newTask)\<rparr>))"


definition str_prop :: "json \<Rightarrow> string \<Rightarrow> string option" where
  "str_prop v k = (case get_prop v k of Some (JStr x) \<Rightarrow> Some x | _ \<Rightarrow> None)"

definition as_task :: "json \<Rightarrow> task option" where
  \<comment> \<open>a task object read from storage, as a \<open>Task\<close> of the typedef; \<open>None\<close> when a
      property has another type than the typedef gives it\<close>
  "as_task v =
     (case str_prop v ''id'' of None \<Rightarrow> None | Some i \<Rightarrow>
      case str_prop v ''title'' of None \<Rightarrow> None | Some t \<Rightarrow>
      case get_prop v ''completed'' of
        Some (JBool c) \<Rightarrow>
          (case str_prop v ''priority'' of None \<Rightarrow> None | Some p \<Rightarrow>
           case str_prop v ''createdAt'' of None \<Rightarrow> None | Some ca \<Rightarrow>
           case str_prop v ''updatedAt'' of None \<Rightarrow> None | Some ua \<Rightarrow>
           case get_prop v ''completedAt'' of
             Some JNull \<Rightarrow>
               Some \<lparr>task_id = i, title = t, completed = c, priority = p, createdAt = ca,
                     updatedAt = ua, completedAt = None\<rparr>
           | Some (JStr x) \<Rightarrow>
               Some \<lparr>task_id = i, title = t, completed = c, priority = p, createdAt = ca,
                     updatedAt = ua, completedAt = Some x\<rparr>
           | _ \<Rightarrow> None)
      | _ \<Rightarrow> None)"

definition tm_init ::
  "subscriber list \<Rightarrow> middleware list \<Rightarrow> (string \<Rightarrow> json option) \<Rightarrow> string \<Rightarrow> world
     \<Rightarrow> world option" where
  \<comment> \<open>\<open>TaskManager.init\<close>, up to its subscription: \<open>loadTasks\<close>, and
      \<open>setState({ tasks: storedTasks }, 'taskManager.init')\<close> when tasks were stored.
      \<open>None\<close>: a stored task is no \<open>Task\<close> of the typedef (its id or a date is not a
      string), and the typed state of this model does not hold it.\<close>
  "tm_init subs mws JSON_parse now w =
     (case loadTasks JSON_parse now (store w) of
        (storedTasks, s') \<Rightarrow>
          if storedTasks = [] then Some (w\<lparr>store := s'\<rparr>)
          else case those (map as_task storedTasks) of
                 None \<Rightarrow> None
               | Some ts \<Rightarrow> Some (setState subs mws now (UpdTasks ts) ''taskManager.init'' (w\<lparr>store := s'\<rparr>)))"

definition all_or_empty :: "world \<Rightarrow> task list \<times> world" where
  \<comment> \<open>\<open>return this.getAllTasks()\<close> inside the \<open>try\<close> of \<open>searchTasks\<close>, whose \<open>catch\<close>
      logs the error and returns \<open>[]\<close>\<close>
  "all_or_empty w =
     (case getAllTasks w of
        Inl e \<Rightarrow> ([], w\<lparr>console := console w @ [''error: TaskManager.searchTasks'']\<rparr>)
      | Inr ts \<Rightarrow> (ts, w))"

definition searchTasks :: "json option \<Rightarrow> world \<Rightarrow> task list \<times> world" where
  "searchTasks query w =
     (case query of
        Some (JStr q) \<Rightarrow>
          if q = [] then all_or_empty w
          else let searchQuery = trim (toLowerCase q)
               in if length searchQuery = 0 then all_or_empty w
                  else (case getAllTasks w of
                          Inl e \<Rightarrow> ([], w\<lparr>console := console w @ [''error: TaskManager.searchTasks'']\<rparr>)
                        | Inr allTasks \<Rightarrow>
                            (filter (\<lambda>t. includes_str (toLowerCase (title t)) searchQuery) allTasks, w))
      | _ \<Rightarrow> all_or_empty w)"

subsection \<open>The debounced save\<close>

text \<open>
  \<open>debounce(func, 500)\<close> (helpers.js, lines 54-66) with \<open>immediate = false\<close>: a call
  clears the pending timeout and sets a new one, 500 ms from now, that will call
  \<open>func\<close> with the arguments of this call. \<open>TaskManager.init\<close> subscribes \<open>autosave\<close>
  to the state.
\<close>

definition debouncedSave :: "task list option \<Rightarrow> world \<Rightarrow> world" where
  "debouncedSave args w = w\<lparr>save_timer := Some (clock w + 500, args)\<rparr>"

definition autosave :: subscriber where
  \<comment> \<open>\<open>newState.tasks !== prevState.tasks\<close> compares references: the previous state is a
      deep clone, so the two differ unless both are \<open>undefined\<close>\<close>
  "autosave newState prevState source w =
     (False,
      if source \<noteq> ''taskManager.init'' \<and> (tasks newState \<noteq> None \<or> tasks prevState \<noteq> None)
      then debouncedSave (tasks newState) w else w)"

definition saveToStorage :: "string \<Rightarrow> task list option \<Rightarrow> world \<Rightarrow> world" where
  "saveToStorage now ts w = w\<lparr>store := snd (saveTasks now (tasks_json ts) (store w))\<rparr>"

definition advance :: "string \<Rightarrow> nat \<Rightarrow> world \<Rightarrow> world" where
  \<comment> \<open>\<open>dt\<close> milliseconds pass with no call from outside: the pending save runs if it
      falls due. \<open>now\<close> is the timestamp when it runs.\<close>
  "advance now dt w =
     (let w' = w\<lparr>clock := clock w + dt\<rparr>
      in case save_timer w' of
           None \<Rightarrow> w'
         | Some (due, args) \<Rightarrow>
             if due \<le> clock w' then saveToStorage now args (w'\<lparr>save_timer := None\<rparr>) else w')"

subsection \<open>Predicates used to state the properties\<close>

definition calls_setState ::
  "subscriber list \<Rightarrow> middleware list \<Rightarrow> string \<Rightarrow> update \<Rightarrow> string \<Rightarrow> subscriber" where
  \<comment> \<open>a subscriber whose body is a call of \<open>setState\<close>\<close>
  "calls_setState subs mws now updates source =
     (\<lambda>newState prevState src w. (False, setState subs mws now updates source w))"

definition keeps_state :: "subscriber \<Rightarrow> bool" where
  \<comment> \<open>a subscriber that leaves the state object and the update flag as they are\<close>
  "keeps_state callback =
     (\<forall>n p src w. state (snd (callback n p src w)) = state w
                  \<and> isUpdating (snd (callback n p src w)) = isUpdating w)"

definition completedAt_matches :: "task \<Rightarrow> bool" where
  \<comment> \<open>the invariant of the data model: \<open>completedAt\<close> is present iff \<open>completed\<close>\<close>
  "completedAt_matches t = ((completedAt t \<noteq> None) = completed t)"

definition json_completedAt_matches :: "json \<Rightarrow> bool" where
  \<comment> \<open>the same invariant on a task object in its JSON form\<close>
  "json_completedAt_matches v =
     ((get_prop v ''completedAt'' \<noteq> None \<and> get_prop v ''completedAt'' \<noteq> Some JNull)
        = (get_prop v ''completed'' = Some (JBool True)))"

definition all_tasks :: "world \<Rightarrow> task list" where
  \<comment> \<open>the task collection of the state, empty when the state has none\<close>
  "all_tasks w = (case tasks (state w) of None \<Rightarrow> [] | Some ts \<Rightarrow> ts)"

subsection \<open>Construction\<close>

definition getInitialState :: "string \<Rightarrow> app_state" where
  "getInitialState now =
     \<lparr>tasks = Some [],
      filters = Some (JObj [(''status'', JStr ''all''), (''priority'', JStr ''all''),
                            (''searchQuery'', JStr [])]),
      ui = Some (JObj [(''theme'', JStr ''light''), (''sidebarOpen'', JBool False),
                       (''modalOpen'', JBool False), (''currentModal'', JNull),
                       (''notification'',
                          JObj [(''message'', JStr []), (''type'', JStr ''info''),
                                (''visible'', JBool False), (''autoHide'', JBool True),
                                (''duration'', JNum 5000)]),
                       (''loading'', JBool False), (''editingTaskId'', JNull),
                       (''selectedTaskIds'', JArr [])]),
      settings = Some (JObj [(''maxTasks'', JNum 1000), (''autoSave'', JBool True),
                             (''confirmDeletion'', JBool True), (''showCompletedTasks'', JBool True),
                             (''taskSortBy'', JStr ''createdAt''),
                             (''taskSortDirection'', JStr ''desc'')]),
      statistics = Some \<lparr>totalTasks = 0, completedTasks = 0, activeTasks = 0,
                         todayCreated = 0, todayCompleted = 0\<rparr>,
      lastUpdated = Some now\<rparr>"

definition empty_storage :: storage where
  \<comment> \<open>an available \<open>localStorage\<close> with no item, on a host that accepts every write\<close>
  "empty_storage = \<lparr>isAvailable = True, items = Map.empty,
                     host_accepts = (\<lambda>its key v. True), setItem_log = []\<rparr>"

definition fresh_storage :: storage where
  \<comment> \<open>the \<open>StorageService\<close> after its constructor, over an empty \<open>localStorage\<close>: it holds
      the version item that \<open>initializeStorage\<close> wrote (nothing is parsed on the way, since
      no item is set). The log of writes starts here, after the construction.\<close>
  "fresh_storage = (initializeStorage (\<lambda>t. None) empty_storage)\<lparr>setItem_log := []\<rparr>"

definition new_world :: "string \<Rightarrow> world" where
  \<comment> \<open>the three singletons after their constructors, over an empty \<open>localStorage\<close>, at
      time 0\<close>
  "new_world now =
     \<lparr>state = getInitialState now, history = [], isUpdating = False, console = [],
      store = fresh_storage, cache = Map.empty, save_timer = None, hide_timers = [], clock = 0\<rparr>"

section \<open>Object references handed out by the read operations\<close>

text \<open>
  The models above work on values. What a caller can do to the state through a result
  of \<open>getState\<close>, \<open>getTask\<close> or \<open>getAllTasks\<close> depends on which objects the result
  shares with the state, so these three are modelled once more over a store of task
  objects: a reference is the index of an object in \<open>objects\<close>, and \<open>task_refs\<close> are the
  elements of the array \<open>this.state.tasks\<close>. An array a read returns is a list of
  references; it is a new array in each of the three operations, so the caller cannot
  reach the array of the state itself.
\<close>

type_synonym ref = nat

record ref_state =
  objects :: "task list"
  task_refs :: "ref list"

definition deref :: "ref_state \<Rightarrow> ref \<Rightarrow> task option" where
  "deref h r = element_at (objects h) r"

definition held_tasks :: "ref_state \<Rightarrow> task option list" where
  \<comment> \<open>the tasks the state holds now, as any later read finds them\<close>
  "held_tasks h = map (deref h) (task_refs h)"

definition getTask_ref :: "string \<Rightarrow> ref_state \<Rightarrow> ref option" where
  \<comment> \<open>\<open>this.state.tasks.find(task => task.id === taskId) || null\<close>: the element itself\<close>
  "getTask_ref taskId h =
     find (\<lambda>r. case deref h r of None \<Rightarrow> False | Some t \<Rightarrow> task_id t = taskId) (task_refs h)"

definition getAllTasks_ref :: "ref_state \<Rightarrow> ref list" where
  \<comment> \<open>\<open>[...this.state.tasks]\<close>: a new array of the same elements\<close>
  "getAllTasks_ref h = task_refs h"

definition getState_ref :: "ref_state \<Rightarrow> ref list \<times> ref_state" where
  \<comment> \<open>\<open>deepClone(this.state)\<close>, its \<open>tasks\<close>: a new object for every task, allocated
      behind the existing ones\<close>
  "getState_ref h =
     ([length (objects h) ..< length (objects h) + length (task_refs h)],
      h\<lparr>objects := objects h @ map (\<lambda>r. objects h ! r) (task_refs h)\<rparr>)"

definition assign :: "ref \<Rightarrow> (task \<Rightarrow> task) \<Rightarrow> ref_state \<Rightarrow> ref_state" where
  \<comment> \<open>the caller assigns to properties of an object it holds a reference to\<close>
  "assign r f h =
     (if r < length (objects h) then h\<lparr>objects := (objects h)[r := f (objects h ! r)]\<rparr> else h)"

definition wf_refs :: "ref_state \<Rightarrow> bool" where
  "wf_refs h = list_all (\<lambda>r. r < length (objects h)) (task_refs h)"

section \<open>Two scenarios\<close>

definition T0 :: string where "T0 = ''2024-01-01T00:00:00.000Z''"

definition two_creates :: world where
  \<comment> \<open>on a new application with \<open>autosave\<close> subscribed: a \<open>createTask\<close>, 100 ms later a
      second \<open>createTask\<close>, and then 500 ms without a call\<close>
  "two_creates =
     (let w1 = snd (createTask [autosave] [] T0 ''task_1'' (Some (JObj [(''title'', JStr ''A'')]))
                      (new_world T0));
          w2 = advance T0 100 w1;
          w3 = snd (createTask [autosave] [] T0 ''task_2'' (Some (JObj [(''title'', JStr ''B'')])) w2)
      in advance T0 500 w3)"

definition tasks_record :: "task list \<Rightarrow> string" where
  \<comment> \<open>the text \<open>saveTasks\<close> stores for a list of tasks at time \<open>T0\<close>\<close>
  "tasks_record ts =
     JSON_stringify (JObj [(''tasks'', JArr (map task_json ts)), (''timestamp'', JStr T0),
                           (''version'', JStr CURRENT_VERSION)])"

definition task_A :: task where
  "task_A = \<lparr>task_id = ''task_1'', title = ''A'', completed = False, priority = ''medium'',
             createdAt = T0, updatedAt = T0, completedAt = None\<rparr>"

definition task_B :: task where
  "task_B = \<lparr>task_id = ''task_2'', title = ''B'', completed = False, priority = ''medium'',
             createdAt = T0, updatedAt = T0, completedAt = None\<rparr>"

subsection \<open>An import whose tasks do not fit\<close>

definition big_id :: string where
  \<comment> \<open>an id of 5 MiB\<close>
  "big_id = replicate 5242880 (CHR ''x'')"

definition import_data :: json where
  "import_data =
     JObj [(''version'', JStr ''1.0.0''),
           (''tasks'', JArr [JObj [(''id'', JStr big_id), (''title'', JStr ''t'')]]),
           (''settings'', JObj [(''maxTasks'', JNum 5)])]"

definition import_text :: string where
  "import_text = JSON_stringify import_data"

definition settings_record :: "int \<Rightarrow> json" where
  \<comment> \<open>the record \<open>saveSettings\<close> stores at time \<open>T0\<close> for \<open>{ maxTasks: n }\<close>\<close>
  "settings_record n =
     JObj [(''settings'', settings_object (Some n) (JObj [(''maxTasks'', JNum n)])),
           (''timestamp'', JStr T0), (''version'', JStr CURRENT_VERSION)]"

definition settings_text :: "int \<Rightarrow> string" where
  "settings_text n = JSON_stringify (settings_record n)"

definition scenario_parse :: "string \<Rightarrow> json option" where
  \<comment> \<open>\<open>JSON.parse\<close> on the two texts it is given in this scenario\<close>
  "scenario_parse t =
     (if t = settings_text 50 then Some (settings_record 50)
      else if t = import_text then Some import_data
      else None)"

definition import_store :: storage where
  \<comment> \<open>before the import: the version item, a settings record with \<open>maxTasks: 50\<close>, no
      tasks record\<close>
  "import_store = fresh_storage\<lparr>items := (items fresh_storage)(SETTINGS \<mapsto> settings_text 50)\<rparr>"

subsection \<open>A stored task that is completed and has no completion time\<close>

definition unpaired_record :: json where
  "unpaired_record = JObj [(''id'', JStr ''t1''), (''title'', JStr ''a''), (''completed'', JBool True)]"

definition stored_tasks :: json where
  \<comment> \<open>a tasks record in the format \<open>saveTasks\<close> writes\<close>
  "stored_tasks = JObj [(''tasks'', JArr [unpaired_record]), (''timestamp'', JStr T0),
                        (''version'', JStr CURRENT_VERSION)]"

definition stored_parse :: "string \<Rightarrow> json option" where
  \<comment> \<open>\<open>JSON.parse\<close> on the two texts it is given in this scenario\<close>
  "stored_parse t =
     (if t = JSON_stringify stored_tasks then Some stored_tasks
      else if t = JSON_stringify (JStr CURRENT_VERSION) then Some (JStr CURRENT_VERSION)
      else None)"

definition stored_world :: world where
  \<comment> \<open>the singletons after their constructors, over a \<open>localStorage\<close> that holds the
      version item and the tasks record; the loads the constructors start are still to run\<close>
  "stored_world =
     (new_world T0)\<lparr>store :=
        (initializeStorage stored_parse
           (empty_storage\<lparr>items := [VERSION \<mapsto> JSON_stringify (JStr CURRENT_VERSION),
                                     TASKS \<mapsto> JSON_stringify stored_tasks]\<rparr>))\<lparr>setItem_log := []\<rparr>\<rparr>"

definition unpaired_task :: task where
  "unpaired_task = \<lparr>task_id = ''t1'', title = ''a'', completed = True, priority = ''medium'',
                    createdAt = T0, updatedAt = T0, completedAt = None\<rparr>"

definition one_task_world :: world where
  \<comment> \<open>a new application with \<open>autosave\<close> subscribed, after \<open>createTask({ title: 'A' })\<close>\<close>
  "one_task_world =
     snd (createTask [autosave] [] T0 ''task_1'' (Some (JObj [(''title'', JStr ''A'')])) (new_world T0))"

definition completed_only :: task_patch where
  \<comment> \<open>the updates \<open>{ completed: true }\<close>\<close>
  "completed_only = \<lparr>p_title = None, p_completed = Some True, p_completedAt = None, p_priority = None\<rparr>"

subsection \<open>A valid input after a rejected one\<close>

section \<open>Properties of sortTasks\<close>






















lemma sort_field_priority:
  "sort_field sortBy = ''priority'' \<longleftrightarrow> sortBy = ''priority''"
  by (auto simp: sort_field_def validSortFields_def)





lemma sortTasks_example:
  "sortTasks
     [\<lparr>task_id = ''1'', title = ''b'', completed = False, priority = ''low'',
       createdAt = ''d1'', updatedAt = ''d1'', completedAt = None\<rparr>,
      \<lparr>task_id = ''2'', title = ''A'', completed = False, priority = ''high'',
       createdAt = ''d2'', updatedAt = ''d2'', completedAt = None\<rparr>,
      \<lparr>task_id = ''3'', title = ''a'', completed = False, priority = ''high'',
       createdAt = ''d3'', updatedAt = ''d3'', completedAt = None\<rparr>] ''priority'' ''desc''
   = [\<lparr>task_id = ''2'', title = ''A'', completed = False, priority = ''high'',
       createdAt = ''d2'', updatedAt = ''d2'', completedAt = None\<rparr>,
      \<lparr>task_id = ''3'', title = ''a'', completed = False, priority = ''high'',
       createdAt = ''d3'', updatedAt = ''d3'', completedAt = None\<rparr>,
      \<lparr>task_id = ''1'', title = ''b'', completed = False, priority = ''low'',
       createdAt = ''d1'', updatedAt = ''d1'', completedAt = None\<rparr>]"
  by (simp add: sortTasks_def array_sort_def compareTasks_def sort_field_def validSortFields_def
      sort_value_def priorityOrder_def inherited_member_def)

section \<open>Definitions unfolded when a concrete input is evaluated\<close>

lemmas str_defs = isWhitespace_def trim_def lower_char_def toLowerCase_def substring0_def
lemmas valid_defs = validateTaskData_def validateTitle_def validatePriority_def containsDangerousContent_def
  includes_ci_def script_at_def on_handler_at_def isWordChar_def sanitizeHtml_def html_escape_def
  title_text_def priority_or_medium_def
lemma fresh_storage_eq:
  "fresh_storage = empty_storage\<lparr>items := [VERSION \<mapsto> JSON_stringify (JStr CURRENT_VERSION)]\<rparr>"
  by (simp add: fresh_storage_def initializeStorage_def handleVersionMigration_def
      validateStoredData_def getItem_def setItem_def getStorageInfo_def item_size_def
      STORAGE_KEYS_def empty_storage_def Let_def TASKS_def SETTINGS_def UI_STATE_def VERSION_def
      MAX_STORAGE_SIZE_def CURRENT_VERSION_def blob_size_def quote_def escape_char_def)

lemmas state_defs = setState_def applyUpdates_def applyMiddleware_def addToHistory_def updateStatistics_def
  notifySubscribers_def ignored_def handleStateError_def only_tasks_def today_of_def completed_today_def
  maxHistorySize_def addTask_def persist_def tasks_json_def task_json_def autosave_def debouncedSave_def
  new_world_def getInitialState_def fresh_storage_eq empty_storage_def all_tasks_def
lemmas store_defs = saveTasks_def validateTasks_def validated_task_def valid_task_object_def setItem_def
  has_own_def
  getStorageInfo_def item_size_def STORAGE_KEYS_def TASKS_def SETTINGS_def UI_STATE_def VERSION_def
  CURRENT_VERSION_def MAX_STORAGE_SIZE_def blob_size_def quote_def escape_char_def prop_or_null_def
  or_else_def choice_setting_def
lemmas scenario_defs = T0_def task_A_def task_B_def tasks_record_def

lemma valid_title_A: "validateTaskData (Some (JObj [(''title'', JStr ''A'')])) = []"
  by (simp add: str_defs valid_defs)

lemma valid_title_B: "validateTaskData (Some (JObj [(''title'', JStr ''B'')])) = []"
  by (simp add: str_defs valid_defs)

section \<open>Properties of setState\<close>


lemma notifySubscribers_keeps:
  assumes "\<And>c. c \<in> set subs \<Longrightarrow> keeps_state c"
  shows "state (notifySubscribers subs prev src w) = state w
       \<and> isUpdating (notifySubscribers subs prev src w) = isUpdating w"
proof -
  have "state (foldl (\<lambda>w' callback.
              case callback ns prev src w' of
                (True, w'') \<Rightarrow> w''\<lparr>console := console w'' @ [''error: StateManager.notifySubscribers'']\<rparr>
              | (False, w'') \<Rightarrow> w'') w subs) = state w
     \<and> isUpdating (foldl (\<lambda>w' callback.
              case callback ns prev src w' of
                (True, w'') \<Rightarrow> w''\<lparr>console := console w'' @ [''error: StateManager.notifySubscribers'']\<rparr>
              | (False, w'') \<Rightarrow> w'') w subs) = isUpdating w" for ns
    using assms
  proof (induction subs arbitrary: w)
    case Nil
    then show ?case by simp
  next
    case (Cons c cs)
    from Cons.prems have k: "keeps_state c" by simp
    obtain b w1 where cw: "c ns prev src w = (b, w1)" by (cases "c ns prev src w")
    from k cw have s1: "state w1 = state w" "isUpdating w1 = isUpdating w"
      unfolding keeps_state_def by (metis snd_conv)+
    from Cons.prems have "\<And>c'. c' \<in> set cs \<Longrightarrow> keeps_state c'" by simp
    from Cons.IH [OF this] s1 cw show ?case
      by (cases b) simp_all
  qed
  then show ?thesis unfolding notifySubscribers_def by blast
qed

lemma isUpdating_handleStateError: "isUpdating (handleStateError w) = isUpdating w"
  by (simp add: handleStateError_def ignored_def Let_def)

lemma state_handleStateError: "state (handleStateError w) = state w"
  by (simp add: handleStateError_def ignored_def Let_def)

lemma setState_updating: "isUpdating w \<Longrightarrow> setState subs mws now updates source w = ignored w"
  by (simp add: setState_def)

lemma setState_clears: "\<not> isUpdating w \<Longrightarrow> \<not> isUpdating (setState subs mws now updates source w)"
  by (simp add: setState_def Let_def)

lemma nested_ignored:
  "isUpdating w \<Longrightarrow> calls_setState subs mws now updates source n p src w = (False, ignored w)"
  by (simp add: calls_setState_def setState_updating)


lemma notify_nested:
  "isUpdating w \<Longrightarrow>
     notifySubscribers [calls_setState subs mws now updates source] prev src w = ignored w"
  by (simp add: notifySubscribers_def nested_ignored)

lemma notify_none: "notifySubscribers [] prev src w = w"
  by (simp add: notifySubscribers_def)

lemma isUpdating_addToHistory: "isUpdating (addToHistory st src now w) = isUpdating w"
  by (simp add: addToHistory_def Let_def)

lemma applyMiddleware_isUpdating:
  "isUpdating (snd (applyMiddleware mws newState prev src w)) = isUpdating w"
  unfolding applyMiddleware_def
  by (induction mws arbitrary: newState w) (auto split: option.splits)

lemma setState_nested_same:
  "state (setState [calls_setState subs' mws' now' updates' source'] mws now updates source w)
     = state (setState [] mws now updates source w)
   \<and> history (setState [calls_setState subs' mws' now' updates' source'] mws now updates source w)
     = history (setState [] mws now updates source w)"
proof (cases "isUpdating w")
  case True
  then show ?thesis by (simp add: setState_updating)
next
  case False
  show ?thesis
  proof (cases "applyUpdates (state w) updates")
    case (Inl e)
    with False show ?thesis by (simp add: setState_def Let_def)
  next
    case (Inr newState)
    obtain processedState wm
      where am: "applyMiddleware mws newState (state w) source (w\<lparr>isUpdating := True\<rparr>)
                   = (processedState, wm)"
      by (cases "applyMiddleware mws newState (state w) source (w\<lparr>isUpdating := True\<rparr>)")
    have um: "isUpdating wm"
      using applyMiddleware_isUpdating [of mws newState "state w" source "w\<lparr>isUpdating := True\<rparr>"]
      by (simp add: am)
    let ?w3 = "addToHistory (state w) source now
                 (wm\<lparr>state := processedState\<lparr>lastUpdated := Some now\<rparr>\<rparr>)"
    show ?thesis
    proof (cases "updateStatistics now (state ?w3)")
      case (Inl e)
      with False Inr am show ?thesis by (simp add: setState_def Let_def)
    next
      case st: (Inr st)
      have upd: "isUpdating (?w3\<lparr>state := st\<rparr>)"
        using um by (simp add: isUpdating_addToHistory)
      from False Inr st am show ?thesis
        by (simp add: setState_def Let_def notify_nested [OF upd] notify_none ignored_def)
    qed
  qed
qed

text \<open>
  C6. A \<open>setState\<close> call made while an update is in progress is logged and changes
  nothing else; a call made while the container is idle leaves it idle again, whatever
  the update function, the middleware and the subscribers do (return or throw); and a
  subscriber that calls \<open>setState\<close> during the notification has its call ignored: the
  state and the history end as they do with no subscriber at all.
\<close>

theorem setState_reentrancy_guard:
  "(if isUpdating w
    then setState subs mws now updates source w
           = w\<lparr>console := console w @ [''warn: State update called during state update, ignoring'']\<rparr>
    else \<not> isUpdating (setState subs mws now updates source w))
   \<and> state (setState [calls_setState subs' mws' now' updates' source'] mws now updates source w)
       = state (setState [] mws now updates source w)
   \<and> history (setState [calls_setState subs' mws' now' updates' source'] mws now updates source w)
       = history (setState [] mws now updates source w)"
  using setState_nested_same [of subs' mws' now' updates' source' mws now updates source w]
  by (simp add: setState_updating setState_clears ignored_def)



lemma state_addToHistory: "state (addToHistory st src now w) = state w"
  by (simp add: addToHistory_def Let_def)

lemma tasks_updateStatistics:
  "updateStatistics now st = Inr st' \<Longrightarrow> tasks st' = tasks st"
  by (auto simp: updateStatistics_def split: option.splits)

lemma applyMiddleware_none: "applyMiddleware [] newState prev src w = (newState, w)"
  by (simp add: applyMiddleware_def)

lemma setState_tasks:
  assumes keeps: "\<And>c. c \<in> set subs \<Longrightarrow> keeps_state c"
  shows "tasks (state (setState subs [] now (UpdFn f) source w))
     = (if isUpdating w then tasks (state w)
        else case f (state w) of Inl e \<Rightarrow> tasks (state w) | Inr st \<Rightarrow> tasks st)"
proof (cases "isUpdating w")
  case True
  then show ?thesis by (simp add: setState_updating ignored_def)
next
  case False
  show ?thesis
  proof (cases "f (state w)")
    case (Inl e)
    with False show ?thesis
      by (simp add: setState_def Let_def applyUpdates_def state_handleStateError)
  next
    case (Inr newState)
    let ?w3 = "addToHistory (state w) source now
                 (w\<lparr>isUpdating := True, state := newState\<lparr>lastUpdated := Some now\<rparr>\<rparr>)"
    have s3: "state ?w3 = newState\<lparr>lastUpdated := Some now\<rparr>"
      by (simp add: state_addToHistory)
    show ?thesis
    proof (cases "updateStatistics now (state ?w3)")
      case (Inl e)
      with False Inr s3 show ?thesis
        by (simp add: setState_def Let_def applyUpdates_def applyMiddleware_none
            state_handleStateError state_addToHistory)
    next
      case st: (Inr st)
      from st s3 have "tasks st = tasks newState"
        using tasks_updateStatistics by fastforce
      with False Inr st show ?thesis
        using notifySubscribers_keeps [OF keeps, of subs "state w" source "?w3\<lparr>state := st\<rparr>"]
        by (simp add: setState_def Let_def applyUpdates_def applyMiddleware_none)
    qed
  qed
qed

section \<open>Properties of the TaskManager\<close>


lemma lower_whitespace: "isWhitespace c \<Longrightarrow> lower_char c = c"
  by (auto simp: isWhitespace_def lower_char_def Let_def)

lemma trim_blank: "list_all isWhitespace q \<Longrightarrow> trim (toLowerCase q) = []"
proof -
  assume a: "list_all isWhitespace q"
  then have "map lower_char q = q"
    by (induction q) (simp_all add: lower_whitespace)
  moreover from a have "dropWhile isWhitespace q = []"
    by (simp add: dropWhile_eq_Nil_conv list_all_iff)
  ultimately have "trim (toLowerCase q) = rev (dropWhile isWhitespace (rev []))"
    by (simp only: trim_def toLowerCase_def)
  then show ?thesis by simp
qed

lemma all_or_empty_all: "fst (all_or_empty w) = all_tasks w \<and> state (snd (all_or_empty w)) = state w"
  by (simp add: all_or_empty_def all_tasks_def getAllTasks_def split: option.splits)

text \<open>
  C10. When the search argument is \<open>null\<close> or \<open>undefined\<close>, is not a string, or is a
  string of white space only, \<open>searchTasks\<close> returns the whole task collection of the
  state (the empty list when the state holds none: the \<open>TypeError\<close> of \<open>getAllTasks\<close> is
  caught), and the state is as before. \<open>searchTasks\<close> is a total function of the model:
  every path of the source returns.
\<close>

theorem searchTasks_blank_returns_all:
  assumes "\<And>q. query = Some (JStr q) \<Longrightarrow> list_all isWhitespace q"
  shows "fst (searchTasks query w) = all_tasks w \<and> state (snd (searchTasks query w)) = state w"
proof (cases query)
  case None
  then show ?thesis by (simp add: searchTasks_def all_or_empty_all)
next
  case (Some v)
  show ?thesis
  proof (cases v)
    case (JStr q)
    with Some assms have "list_all isWhitespace q" by simp
    then have "trim (toLowerCase q) = []" by (rule trim_blank)
    with Some JStr show ?thesis by (simp add: searchTasks_def all_or_empty_all Let_def)
  qed (use Some in \<open>simp_all add: searchTasks_def all_or_empty_all\<close>)
qed


theorem searchTasks_blank_returns_all_witness:
  "list_all isWhitespace ''   ''
   \<and> fst (searchTasks (Some (JStr ''   ''))
        (snd (createTask [autosave] [] ''2024-01-01T00:00:00.000Z'' ''task_1''
               (Some (JObj [(''title'', JStr ''Buy milk'')])) (new_world ''2024-01-01T00:00:00.000Z''))))
     = [\<lparr>task_id = ''task_1'', title = ''Buy milk'', completed = False, priority = ''medium'',
         createdAt = ''2024-01-01T00:00:00.000Z'', updatedAt = ''2024-01-01T00:00:00.000Z'',
         completedAt = None\<rparr>]"
proof -
  let ?w = "snd (createTask [autosave] [] ''2024-01-01T00:00:00.000Z'' ''task_1''
               (Some (JObj [(''title'', JStr ''Buy milk'')])) (new_world ''2024-01-01T00:00:00.000Z''))"
  have h: "list_all isWhitespace ''   ''" by (simp add: isWhitespace_def)
  have v: "validateTaskData (Some (JObj [(''title'', JStr ''Buy milk'')])) = []"
    by (simp add: str_defs valid_defs)
  have a: "all_tasks ?w = [\<lparr>task_id = ''task_1'', title = ''Buy milk'', completed = False, priority = ''medium'',
         createdAt = ''2024-01-01T00:00:00.000Z'', updatedAt = ''2024-01-01T00:00:00.000Z'',
         completedAt = None\<rparr>]"
    by (simp add: createTask_def v Let_def str_defs valid_defs state_defs split_beta)
  from searchTasks_blank_returns_all [of "Some (JStr ''   '')" ?w] h a show ?thesis by simp
qed



lemma valid_is_object:
  "validateTaskData (Some d) = [] \<Longrightarrow> validateTitle (get_prop d ''title'') = []
     \<and> (truthy_opt (get_prop d ''priority'') \<longrightarrow> validatePriority (get_prop d ''priority'') = [])"
  by (auto simp: validateTaskData_def split: if_splits)



lemma find_append_fresh:
  "\<forall>x \<in> set xs. \<not> P x \<Longrightarrow> P y \<Longrightarrow> find P (xs @ [y]) = Some y"
  by (induction xs) auto

lemma state_persist: "state (persist now w) = state w"
  by (simp add: persist_def)



lemma valid_title:
  "validateTitle p = [] \<Longrightarrow> \<exists>s. p = Some (JStr s)"
proof (cases p)
  case None
  moreover assume "validateTitle p = []"
  ultimately show ?thesis by (simp add: validateTitle_def)
next
  case (Some v)
  moreover assume "validateTitle p = []"
  ultimately show ?thesis by (cases v) (simp_all add: validateTitle_def)
qed

lemma createTask_result:
  assumes valid: "validateTaskData (Some d) = []"
      and ttl: "get_prop d ''title'' = Some (JStr s)"
  shows "createTask subs mws now new_id (Some d) w
     = (Inr \<lparr>task_id = new_id, title = sanitizeHtml (trim s), completed = False,
              priority = priority_or_medium (get_prop d ''priority''),
              createdAt = now, updatedAt = now, completedAt = None\<rparr>,
        (persist now (setState subs mws now
            (UpdFn (\<lambda>st. case tasks st of
                             None \<Rightarrow> Inl TypeError
                           | Some ts \<Rightarrow>
                               Inr (only_tasks (ts @
                                 [\<lparr>task_id = new_id, title = sanitizeHtml (trim s), completed = False,
                                    priority = priority_or_medium (get_prop d ''priority''),
                                    createdAt = now, updatedAt = now, completedAt = None\<rparr>]))))
            ''addTask'' w))
          \<lparr>cache := (cache (persist now (setState subs mws now
            (UpdFn (\<lambda>st. case tasks st of
                             None \<Rightarrow> Inl TypeError
                           | Some ts \<Rightarrow>
                               Inr (only_tasks (ts @
                                 [\<lparr>task_id = new_id, title = sanitizeHtml (trim s), completed = False,
                                    priority = priority_or_medium (get_prop d ''priority''),
                                    createdAt = now, updatedAt = now, completedAt = None\<rparr>]))))
            ''addTask'' w)))
             (new_id \<mapsto> \<lparr>task_id = new_id, title = sanitizeHtml (trim s), completed = False,
                priority = priority_or_medium (get_prop d ''priority''),
                createdAt = now, updatedAt = now, completedAt = None\<rparr>)\<rparr>)"
  using valid ttl by (simp add: createTask_def addTask_def Let_def title_text_def cong: option.case_cong)

text \<open>
  After a \<open>createTask\<close> the \<open>StateManager\<close> holds the task too, and its own \<open>getTask\<close>
  returns it, when the container was idle, held a task collection without that id, has
  no middleware, and its subscribers leave the state alone.
\<close>

lemma createTask_then_state_getTask:
  assumes valid: "validateTaskData (Some d) = []"
      and keeps: "\<And>c. c \<in> set subs \<Longrightarrow> keeps_state c"
      and idle: "\<not> isUpdating w"
      and ts: "tasks (state w) = Some ts" "\<forall>x \<in> set ts. task_id x \<noteq> new_id"
  shows "\<exists>t. fst (createTask subs [] now new_id (Some d) w) = Inr t
           \<and> getTask new_id (snd (createTask subs [] now new_id (Some d) w)) = Inr (Some t)"
proof -
  from valid_is_object [OF valid] valid_title obtain s where ttl: "get_prop d ''title'' = Some (JStr s)"
    by blast
  let ?t = "\<lparr>task_id = new_id, title = sanitizeHtml (trim s), completed = False,
             priority = priority_or_medium (get_prop d ''priority''),
             createdAt = now, updatedAt = now, completedAt = None\<rparr>"
  let ?upd = "UpdFn (\<lambda>st. case tasks st of None \<Rightarrow> Inl TypeError
                                 | Some ts \<Rightarrow> Inr (only_tasks (ts @ [?t])))"
  let ?w1 = "persist now (setState subs [] now ?upd ''addTask'' w)"
  let ?w' = "?w1\<lparr>cache := (cache ?w1)(new_id \<mapsto> ?t)\<rparr>"
  have res: "createTask subs [] now new_id (Some d) w = (Inr ?t, ?w')"
    by (rule createTask_result [OF valid ttl])
  from idle ts have "tasks (state (setState subs [] now ?upd ''addTask'' w)) = Some (ts @ [?t])"
    using setState_tasks [OF keeps, of subs now _ "''addTask''" w]
    by (simp add: only_tasks_def)
  then have "tasks (state ?w') = Some (ts @ [?t])"
    by (simp add: state_persist)
  moreover have "find (\<lambda>x. task_id x = new_id) (ts @ [?t]) = Some ?t"
    using ts(2) by (intro find_append_fresh) simp_all
  ultimately have "getTask new_id ?w' = Inr (Some ?t)"
    by (simp add: getTask_def)
  with res show ?thesis by simp
qed



section \<open>The completedAt invariant\<close>


lemma all_tasks_setState:
  assumes keeps: "\<And>c. c \<in> set subs \<Longrightarrow> keeps_state c"
  shows "all_tasks (setState subs [] now (UpdFn f) source w)
     = (if isUpdating w then all_tasks w
        else case f (state w) of
               Inl e \<Rightarrow> all_tasks w
             | Inr st \<Rightarrow> (case tasks st of None \<Rightarrow> [] | Some ts \<Rightarrow> ts))"
  using setState_tasks [OF keeps, of subs now f source w]
  by (simp add: all_tasks_def split: sum.splits)

lemma all_tasks_persist: "all_tasks (persist now w) = all_tasks w"
  by (simp add: all_tasks_def persist_def)

lemma list_all_update:
  "list_all P xs \<Longrightarrow> P v \<Longrightarrow> list_all P (xs[i := v])"
  by (induction xs arbitrary: i) (auto split: nat.splits)

lemma createTask_keeps_invariant:
  assumes keeps: "\<And>c. c \<in> set subs \<Longrightarrow> keeps_state c"
      and inv: "list_all completedAt_matches (all_tasks w)"
  shows "list_all completedAt_matches (all_tasks (snd (createTask subs [] now new_id taskData w)))"
proof (cases "validateTaskData taskData = []")
  case False
  let ?w0 = "w\<lparr>console := console w @ [''error: '' @ ''TaskManager.createTask'']\<rparr>"
  have same: "all_tasks ?w0 = all_tasks w" "isUpdating ?w0 = isUpdating w"
    by (simp_all add: all_tasks_def)
  from False have "all_tasks (snd (createTask subs [] now new_id taskData w))
      = all_tasks (setState subs [] now
          (UpdFn (\<lambda>st. Inr (only_ui (JObj (set_prop ''notification''
             (JObj [(''message'', JStr ''Failed to create task''), (''type'', JStr ''error''),
                    (''visible'', JBool True), (''autoHide'', JBool True),
                    (''duration'', JNum (int 5000)), (''id'', JStr new_id)]) (ui_props (ui st)))))))
          ''showNotification'' ?w0)"
    by (simp add: createTask_def Let_def handleError_def showNotification_def all_tasks_def)
  also have "\<dots> = (if isUpdating w then all_tasks w else [])"
    using all_tasks_setState [OF keeps, of subs now _ "''showNotification''" ?w0] same
    by (simp add: only_ui_def)
  finally show ?thesis using inv by simp
next
  case True
  let ?d = "case taskData of Some x \<Rightarrow> x | None \<Rightarrow> JNull"
  let ?t = "\<lparr>task_id = new_id, title = sanitizeHtml (trim (title_text (get_prop ?d ''title''))),
             completed = False, priority = priority_or_medium (get_prop ?d ''priority''),
             createdAt = now, updatedAt = now, completedAt = None\<rparr>"
  have t: "completedAt_matches ?t" by (simp add: completedAt_matches_def)
  from True have "all_tasks (snd (createTask subs [] now new_id taskData w))
      = all_tasks (setState subs [] now
          (UpdFn (\<lambda>st. case tasks st of None \<Rightarrow> Inl TypeError
                                       | Some ts \<Rightarrow> Inr (only_tasks (ts @ [?t])))) ''addTask'' w)"
    by (simp add: createTask_def Let_def addTask_def all_tasks_def persist_def)
  also have "\<dots> = (if isUpdating w then all_tasks w
                    else case tasks (state w) of None \<Rightarrow> all_tasks w | Some ts \<Rightarrow> ts @ [?t])"
    using all_tasks_setState [OF keeps, of subs now _ "''addTask''" w]
    by (simp add: only_tasks_def split: option.splits)
  finally show ?thesis using inv t
    by (auto simp: all_tasks_def split: option.splits)
qed

lemma deleteTask_keeps_invariant:
  assumes keeps: "\<And>c. c \<in> set subs \<Longrightarrow> keeps_state c"
      and inv: "list_all completedAt_matches (all_tasks w)"
  shows "list_all completedAt_matches (all_tasks (snd (deleteTask subs [] now taskId w)))"
proof (cases "tasks (state w)")
  case None
  with inv show ?thesis by (simp add: deleteTask_def)
next
  case (Some cur)
  show ?thesis
  proof (cases "find (\<lambda>t. task_id t = taskId) cur")
    case None
    with Some inv show ?thesis by (simp add: deleteTask_def)
  next
    case found: (Some task)
    from Some found have "all_tasks (snd (deleteTask subs [] now taskId w))
      = all_tasks (setState subs [] now
          (UpdFn (\<lambda>st. case tasks st of None \<Rightarrow> Inl TypeError
                     | Some ts \<Rightarrow> Inr (only_tasks (filter (\<lambda>t. task_id t \<noteq> taskId) ts))))
          ''deleteTask'' w)"
      by (simp add: deleteTask_def Let_def all_tasks_persist)
    also have "\<dots> = (if isUpdating w then all_tasks w else filter (\<lambda>t. task_id t \<noteq> taskId) cur)"
      using all_tasks_setState [OF keeps, of subs now _ "''deleteTask''" w] Some
      by (simp add: only_tasks_def)
    finally show ?thesis using inv Some
      by (auto simp: all_tasks_def list_all_iff)
  qed
qed


lemma find_findIndex:
  "find P xs = Some x \<Longrightarrow> \<exists>i. findIndex P xs = Some i \<and> i < length xs"
  by (induction xs) (auto split: if_splits)

lemma toggle_keeps_invariant:
  assumes keeps: "\<And>c. c \<in> set subs \<Longrightarrow> keeps_state c"
      and inv: "list_all completedAt_matches (all_tasks w)"
  shows "list_all completedAt_matches (all_tasks (snd (toggleTaskComplete subs [] now taskId w)))"
proof (cases "tasks (state w)")
  case None
  with inv show ?thesis by (simp add: toggleTaskComplete_def)
next
  case (Some cur)
  show ?thesis
  proof (cases "find (\<lambda>t. task_id t = taskId) cur")
    case None
    with Some inv show ?thesis by (simp add: toggleTaskComplete_def)
  next
    case found: (Some task)
    from find_findIndex [OF found] obtain i where
      i: "findIndex (\<lambda>t. task_id t = taskId) cur = Some i" "i < length cur" by blast
    let ?u = "\<lparr>p_title = None, p_completed = Some (\<not> completed task),
               p_completedAt = Some (if \<not> completed task then Some now else None),
               p_priority = None\<rparr>"
    let ?f = "\<lambda>st. case tasks st of
                      None \<Rightarrow> Inl TypeError
                    | Some ts \<Rightarrow>
                        (case element_at ts i of
                           None \<Rightarrow> Inl TypeError
                         | Some old \<Rightarrow> Inr (only_tasks (ts[i := apply_patch old ?u now])))"
    let ?w1 = "setState subs [] now (UpdFn ?f) ''updateTask'' w"
    have new: "completedAt_matches (apply_patch (cur ! i) ?u now)"
      by (simp add: completedAt_matches_def apply_patch_def)
    have "snd (toggleTaskComplete subs [] now taskId w) = persist now ?w1"
      using Some found i
      by (simp add: toggleTaskComplete_def updateTask_def Let_def split: option.splits)
    then have "all_tasks (snd (toggleTaskComplete subs [] now taskId w)) = all_tasks ?w1"
      by (simp add: all_tasks_persist)
    also have "\<dots> = (if isUpdating w then all_tasks w else cur[i := apply_patch (cur ! i) ?u now])"
      using all_tasks_setState [OF keeps, of subs now ?f "''updateTask''" w] Some i(2)
      by (simp add: only_tasks_def element_at_def)
    finally show ?thesis using inv Some new
      by (auto simp: all_tasks_def intro: list_all_update)
  qed
qed

lemma validated_task_fields:
  assumes "validated_task now x = Inr v"
  shows "json_completedAt_matches v
     = (truthy_opt (get_prop x ''completedAt'') = truthy_opt (get_prop x ''completed''))"
proof -
  from assms have c: "get_prop v ''completed'' = Some (JBool (truthy_opt (get_prop x ''completed'')))"
    by (auto simp: validated_task_def split: sum.splits)
  from assms have a: "get_prop v ''completedAt'' = Some (or_else (get_prop x ''completedAt'') JNull)"
    by (auto simp: validated_task_def split: sum.splits)
  have "(or_else (get_prop x ''completedAt'') JNull \<noteq> JNull) = truthy_opt (get_prop x ''completedAt'')"
  proof (cases "get_prop x ''completedAt''")
    case None
    then show ?thesis by (simp add: or_else_def)
  next
    case (Some v)
    then show ?thesis by (cases v) (auto simp: or_else_def)
  qed
  with c a show ?thesis by (auto simp: json_completedAt_matches_def)
qed

lemmas load_eval = tm_init_def loadTasks_def getItem_def stored_world_def stored_parse_def
  stored_tasks_def unpaired_record_def unpaired_task_def initializeStorage_def validateStoredData_def
  validateImportData_def as_task_def str_prop_def

lemma one_task_world_eq:
  "one_task_world =
     \<lparr>state = \<lparr>tasks = Some [task_A], filters = None, ui = None, settings = None,
                statistics = Some \<lparr>totalTasks = 1, completedTasks = 0, activeTasks = 1,
                                   todayCreated = 1, todayCompleted = 0\<rparr>,
                lastUpdated = Some T0\<rparr>,
      history = [\<lparr>h_state = getInitialState T0, h_timestamp = T0, h_source = ''addTask''\<rparr>],
      isUpdating = False, console = [],
      store = empty_storage\<lparr>items := [VERSION \<mapsto> JSON_stringify (JStr CURRENT_VERSION),
                                        TASKS \<mapsto> tasks_record [task_A]],
                              setItem_log := [(TASKS, tasks_record [task_A])]\<rparr>,
      cache = [''task_1'' \<mapsto> task_A], save_timer = Some (500, Some [task_A]),
      hide_timers = [], clock = 0\<rparr>"
  by (simp add: one_task_world_def createTask_def valid_title_A Let_def str_defs valid_defs state_defs
      store_defs split_beta scenario_defs)

text \<open>
  C2. The state comes to hold a task that is completed and has no completion time, in
  two ways. A stored record \<open>{ id: 't1', title: 'a', completed: true }\<close> passes
  \<open>validateTasks\<close>, which sets \<open>completed\<close> to \<open>Boolean(task.completed)\<close> and
  \<open>completedAt\<close> to \<open>task.completedAt || null\<close> and relates the two nowhere;
  \<open>TaskManager.init\<close> puts the result into the state. And
  \<open>StateManager.updateTask(id, { completed: true })\<close> merges the updates into the task
  as they are. \<open>StateManager.toggleTaskComplete\<close>, on the same state, sets both fields
  together.
\<close>

theorem completedAt_pairing_broken:
  "validateTasks T0 (Some (JArr [unpaired_record])) = Inr [task_json unpaired_task]
   \<and> map_option (\<lambda>w. tasks (state w)) (tm_init [] [] stored_parse T0 stored_world)
       = Some (Some [unpaired_task])
   \<and> completed unpaired_task \<and> completedAt unpaired_task = None
   \<and> \<not> completedAt_matches unpaired_task
   \<and> tasks (state one_task_world) = Some [task_A]
   \<and> completedAt_matches task_A
   \<and> tasks (state (snd (updateTask [autosave] [] T0 ''task_1'' completed_only one_task_world)))
       = Some [task_A\<lparr>completed := True\<rparr>]
   \<and> \<not> completedAt_matches (task_A\<lparr>completed := True\<rparr>)
   \<and> tasks (state (snd (toggleTaskComplete [autosave] [] T0 ''task_1'' one_task_world)))
       = Some [task_A\<lparr>completed := True, completedAt := Some T0\<rparr>]
   \<and> completedAt_matches (task_A\<lparr>completed := True, completedAt := Some T0\<rparr>)"
proof -
  have v: "validateTasks T0 (Some (JArr [unpaired_record])) = Inr [task_json unpaired_task]"
    by (simp add: store_defs str_defs unpaired_record_def unpaired_task_def task_json_def)
  have s: "store stored_world
      = empty_storage\<lparr>items := [VERSION \<mapsto> JSON_stringify (JStr CURRENT_VERSION),
                                TASKS \<mapsto> JSON_stringify stored_tasks]\<rparr>"
    by (simp add: load_eval new_world_def empty_storage_def store_defs str_defs T0_def Let_def)
  have l: "loadTasks stored_parse T0 (store stored_world) = ([task_json unpaired_task], store stored_world)"
    unfolding s
    by (simp add: load_eval empty_storage_def store_defs str_defs T0_def Let_def task_json_def)
  have a: "those [as_task (task_json unpaired_task)] = Some [unpaired_task]"
    by (simp add: as_task_def str_prop_def task_json_def unpaired_task_def)
  have n: "\<not> isUpdating stored_world"
    by (simp add: stored_world_def new_world_def)
  have "tm_init [] [] stored_parse T0 stored_world
      = Some (setState [] [] T0 (UpdTasks [unpaired_task]) ''taskManager.init'' stored_world)"
    using a by (simp add: tm_init_def l del: those.simps)
  moreover have "tasks (state (setState [] [] T0 (UpdTasks [unpaired_task]) ''taskManager.init''
               stored_world)) = Some [unpaired_task]"
    using n by (simp add: setState_def applyUpdates_def applyMiddleware_def addToHistory_def
        updateStatistics_def notifySubscribers_def Let_def)
  ultimately have i: "map_option (\<lambda>w. tasks (state w)) (tm_init [] [] stored_parse T0 stored_world)
       = Some (Some [unpaired_task])"
    by simp
  have u: "completed unpaired_task" "completedAt unpaired_task = None"
    "\<not> completedAt_matches unpaired_task"
    by (simp_all add: unpaired_task_def completedAt_matches_def)
  have o: "tasks (state one_task_world) = Some [task_A]"
    by (simp add: one_task_world_eq)
  have m: "completedAt_matches task_A" "\<not> completedAt_matches (task_A\<lparr>completed := True\<rparr>)"
    "completedAt_matches (task_A\<lparr>completed := True, completedAt := Some T0\<rparr>)"
    by (simp_all add: task_A_def completedAt_matches_def)
  have p: "tasks (state (snd (updateTask [autosave] [] T0 ''task_1'' completed_only one_task_world)))
       = Some [task_A\<lparr>completed := True\<rparr>]"
    unfolding one_task_world_eq
    by (simp add: updateTask_def completed_only_def apply_patch_def element_at_def Let_def
        state_defs store_defs str_defs scenario_defs split_beta)
  have g: "tasks (state (snd (toggleTaskComplete [autosave] [] T0 ''task_1'' one_task_world)))
       = Some [task_A\<lparr>completed := True, completedAt := Some T0\<rparr>]"
    unfolding one_task_world_eq
    by (simp add: toggleTaskComplete_def updateTask_def apply_patch_def element_at_def Let_def
        state_defs store_defs str_defs scenario_defs split_beta)
  from v i u o m p g show ?thesis by simp
qed
section \<open>Properties of the StorageService\<close>


lemma setItem_failure_keeps: "fst (setItem key v s) \<noteq> None \<Longrightarrow> snd (setItem key v s) = s"
  by (simp add: setItem_def Let_def split: if_splits)

text \<open>
  C5. On an available store, a \<open>setItem\<close> whose serialized value, added to the bytes
  \<open>getStorageInfo\<close> counts for the application's keys, exceeds
  \<open>MAX_STORAGE_SIZE\<close> (5 MiB) throws \<open>'Storage quota exceeded'\<close> and leaves the service,
  and with it every persisted record, as it was; \<open>saveTasks\<close> then returns \<open>false\<close> with
  the store unchanged. (When \<open>localStorage\<close> is not available the same call throws
  \<open>'localStorage is not available'\<close> first, and also changes nothing.)
\<close>

theorem setItem_quota_all_or_nothing:
  assumes "isAvailable s"
      and "used (getStorageInfo s) + blob_size (JSON_stringify v) > MAX_STORAGE_SIZE"
  shows "setItem key v s = (Some StorageQuotaExceeded, s)
       \<and> (validateTasks now raw = Inr vts
            \<and> v = JObj [(''tasks'', JArr vts), (''timestamp'', JStr now), (''version'', JStr CURRENT_VERSION)]
            \<longrightarrow> saveTasks now raw s = (False, s))"
proof -
  have q: "setItem key' v s = (Some StorageQuotaExceeded, s)" for key'
    using assms by (simp add: setItem_def Let_def del: JSON_stringify.simps)
  have "saveTasks now raw s = (False, s)"
    if "validateTasks now raw = Inr vts"
      and "v = JObj [(''tasks'', JArr vts), (''timestamp'', JStr now), (''version'', JStr CURRENT_VERSION)]"
    using that q [of TASKS] by (simp add: saveTasks_def del: JSON_stringify.simps)
  with q show ?thesis by blast
qed

lemma blob_size_replicate: "blob_size (replicate n (CHR ''x'')) = n"
  by (simp add: blob_size_def sum_list_replicate)

lemma blob_size_append: "blob_size (a @ b) = blob_size a + blob_size b"
  by (simp add: blob_size_def)

theorem setItem_quota_all_or_nothing_witness:
  "isAvailable (empty_storage\<lparr>items := [TASKS \<mapsto> replicate 5242880 (CHR ''x'')]\<rparr>)
   \<and> used (getStorageInfo (empty_storage\<lparr>items := [TASKS \<mapsto> replicate 5242880 (CHR ''x'')]\<rparr>))
       + blob_size (JSON_stringify (JStr ''a'')) > MAX_STORAGE_SIZE
   \<and> setItem SETTINGS (JStr ''a'') (empty_storage\<lparr>items := [TASKS \<mapsto> replicate 5242880 (CHR ''x'')]\<rparr>)
       = (Some StorageQuotaExceeded, empty_storage\<lparr>items := [TASKS \<mapsto> replicate 5242880 (CHR ''x'')]\<rparr>)"
proof -
  let ?s = "empty_storage\<lparr>items := [TASKS \<mapsto> replicate 5242880 (CHR ''x'')]\<rparr>"
  have h1: "isAvailable ?s" by (simp add: empty_storage_def)
  have u: "used (getStorageInfo ?s) = 5242880"
    by (simp add: getStorageInfo_def empty_storage_def Let_def STORAGE_KEYS_def item_size_def
        blob_size_replicate TASKS_def SETTINGS_def UI_STATE_def VERSION_def)
  have b: "blob_size (JSON_stringify (JStr ''a'')) = 3"
    by (simp add: quote_def escape_char_def blob_size_def)
  have h2: "used (getStorageInfo ?s) + blob_size (JSON_stringify (JStr ''a'')) > MAX_STORAGE_SIZE"
    by (simp add: u b MAX_STORAGE_SIZE_def del: JSON_stringify.simps)
  from setItem_quota_all_or_nothing [OF h1 h2, of SETTINGS] h1 h2 show ?thesis by blast
qed

text \<open>
  C7. When the stored tasks record does not parse, \<open>getItem\<close> returns \<open>null\<close> as for an
  unset key, and \<open>loadTasks\<close> returns the empty list and leaves the store as it was.
  \<open>loadTasks\<close> is a total function of the model: every path of the source, the
  \<open>catch\<close> included, returns a list.
\<close>

theorem loadTasks_corrupt_is_absent:
  assumes "items s TASKS = Some v" and "JSON_parse v = None"
  shows "getItem JSON_parse TASKS s = JNull
       \<and> getItem JSON_parse TASKS s = getItem JSON_parse TASKS (s\<lparr>items := (items s)(TASKS := None)\<rparr>)
       \<and> loadTasks JSON_parse now s = ([], s)"
  using assms by (simp add: getItem_def loadTasks_def Let_def)

theorem loadTasks_corrupt_is_absent_witness:
  "items (empty_storage\<lparr>items := [TASKS \<mapsto> ''not-json-parseable'']\<rparr>) TASKS = Some ''not-json-parseable''
   \<and> (\<lambda>t. if t = ''null'' then Some JNull else None) ''not-json-parseable'' = None
   \<and> loadTasks (\<lambda>t. if t = ''null'' then Some JNull else None) ''2024-01-01T00:00:00.000Z''
        (empty_storage\<lparr>items := [TASKS \<mapsto> ''not-json-parseable'']\<rparr>)
       = ([], empty_storage\<lparr>items := [TASKS \<mapsto> ''not-json-parseable'']\<rparr>)"
proof -
  let ?s = "empty_storage\<lparr>items := [TASKS \<mapsto> ''not-json-parseable'']\<rparr>"
  let ?p = "\<lambda>t. if t = ''null'' then Some JNull else None"
  have h1: "items ?s TASKS = Some ''not-json-parseable''" by simp
  have h2: "?p ''not-json-parseable'' = None" by simp
  from loadTasks_corrupt_is_absent [of ?s "''not-json-parseable''" ?p, OF h1 h2] h1
  show ?thesis by simp
qed

section \<open>Writes issued by a burst of mutations\<close>



text \<open>
  C1. Two \<open>createTask\<close> calls 100 ms apart, then 500 ms of quiet, write the tasks record
  three times: \<open>StateManager.addTask\<close> calls \<open>storage.saveTasks\<close> itself on each call
  (the first write holds the intermediate state of one task), and the debounced save of
  the \<open>TaskManager\<close> writes once more when its timer runs. The debounce by itself does
  what the claim says (one timer, rescheduled, run with the last state); the direct
  writes are beside it.
\<close>

theorem two_creates_three_writes:
  "map fst (setItem_log (store two_creates)) = [TASKS, TASKS, TASKS]
   \<and> map snd (setItem_log (store two_creates))
       = [tasks_record [task_A], tasks_record [task_A, task_B], tasks_record [task_A, task_B]]
   \<and> tasks (state two_creates) = Some [task_A, task_B]
   \<and> save_timer two_creates = None"
proof -
  let ?st1 = "\<lparr>tasks = Some [task_A], filters = None, ui = None, settings = None,
         statistics = Some \<lparr>totalTasks = 1, completedTasks = 0, activeTasks = 1,
                            todayCreated = 1, todayCompleted = 0\<rparr>,
         lastUpdated = Some T0\<rparr>"
  let ?st3 = "\<lparr>tasks = Some [task_A, task_B], filters = None, ui = None, settings = None,
         statistics = Some \<lparr>totalTasks = 2, completedTasks = 0, activeTasks = 2,
                            todayCreated = 2, todayCompleted = 0\<rparr>,
         lastUpdated = Some T0\<rparr>"
  let ?h1 = "[\<lparr>h_state = getInitialState T0, h_timestamp = T0, h_source = ''addTask''\<rparr>]"
  let ?h3 = "?h1 @ [\<lparr>h_state = ?st1, h_timestamp = T0, h_source = ''addTask''\<rparr>]"
  let ?W1 = "\<lparr>state = ?st1, history = ?h1, isUpdating = False, console = [],
       store = empty_storage\<lparr>items := [VERSION \<mapsto> JSON_stringify (JStr CURRENT_VERSION),
                                         TASKS \<mapsto> tasks_record [task_A]],
                               setItem_log := [(TASKS, tasks_record [task_A])]\<rparr>,
       cache = [''task_1'' \<mapsto> task_A], save_timer = Some (500, Some [task_A]),
       hide_timers = [], clock = 0\<rparr>"
  let ?W3 = "\<lparr>state = ?st3, history = ?h3, isUpdating = False, console = [],
       store = empty_storage\<lparr>items := [VERSION \<mapsto> JSON_stringify (JStr CURRENT_VERSION),
                                         TASKS \<mapsto> tasks_record [task_A, task_B]],
                               setItem_log := [(TASKS, tasks_record [task_A]),
                                               (TASKS, tasks_record [task_A, task_B])]\<rparr>,
       cache = [''task_1'' \<mapsto> task_A, ''task_2'' \<mapsto> task_B],
       save_timer = Some (600, Some [task_A, task_B]),
       hide_timers = [], clock = 100\<rparr>"
  have s1: "snd (createTask [autosave] [] T0 ''task_1'' (Some (JObj [(''title'', JStr ''A'')]))
                   (new_world T0)) = ?W1"
    by (simp add: createTask_def valid_title_A Let_def str_defs valid_defs state_defs store_defs split_beta
        scenario_defs)
  have s2: "advance T0 100 ?W1 = ?W1\<lparr>clock := 100\<rparr>"
    by (simp add: advance_def)
  have s3: "snd (createTask [autosave] [] T0 ''task_2'' (Some (JObj [(''title'', JStr ''B'')]))
                   (?W1\<lparr>clock := 100\<rparr>)) = ?W3"
    by (simp add: createTask_def valid_title_B Let_def str_defs valid_defs state_defs store_defs split_beta
        scenario_defs)
  have s4: "advance T0 500 ?W3
      = ?W3\<lparr>clock := 600, save_timer := None,
            store := empty_storage\<lparr>items := [VERSION \<mapsto> JSON_stringify (JStr CURRENT_VERSION),
                                         TASKS \<mapsto> tasks_record [task_A, task_B]],
                               setItem_log := [(TASKS, tasks_record [task_A]),
                                               (TASKS, tasks_record [task_A, task_B]),
                                               (TASKS, tasks_record [task_A, task_B])]\<rparr>\<rparr>"
    by (simp add: advance_def saveToStorage_def Let_def str_defs state_defs store_defs scenario_defs)
  have e: "two_creates = advance T0 500 ?W3"
    unfolding two_creates_def Let_def s1 s2 s3 ..
  show ?thesis
    unfolding e s4 by simp
qed

section \<open>Copies and live references\<close>


lemma held_after_clone_assign:
  assumes wf: "wf_refs h"
      and r: "r \<in> set (fst (getState_ref h))"
  shows "held_tasks (assign r f (snd (getState_ref h))) = held_tasks h"
proof -
  let ?n = "length (objects h)"
  let ?h' = "snd (getState_ref h)"
  from r have rn: "?n \<le> r" by (simp add: getState_ref_def)
  from wf have lt: "\<And>x. x \<in> set (task_refs h) \<Longrightarrow> x < ?n"
    by (simp add: wf_refs_def list_all_iff)
  have "deref (assign r f ?h') x = deref h x" if "x \<in> set (task_refs h)" for x
  proof -
    from lt [OF that] rn have "x < ?n" "x \<noteq> r" by auto
    then show ?thesis
      by (simp add: deref_def assign_def getState_ref_def element_at_def nth_append)
  qed
  moreover have "task_refs (assign r f ?h') = task_refs h"
    by (simp add: assign_def getState_ref_def)
  ultimately show ?thesis by (simp add: held_tasks_def)
qed

text \<open>
  C3. \<open>getState\<close> hands out copies: whatever the caller assigns to an object of the
  result (lemma \<open>held_after_clone_assign\<close>), the state holds the same tasks. \<open>getTask\<close>
  returns the task object of the state itself, and \<open>getAllTasks\<close> a new array of those
  same objects: after the caller assigns to the title of the object \<open>getTask\<close> returned,
  the state holds the changed task.
\<close>

theorem getTask_returns_live_reference:
  "getTask_ref ''task_1'' \<lparr>objects = [task_A], task_refs = [0]\<rparr> = Some 0
   \<and> getAllTasks_ref \<lparr>objects = [task_A], task_refs = [0]\<rparr> = [0]
   \<and> held_tasks \<lparr>objects = [task_A], task_refs = [0]\<rparr> = [Some task_A]
   \<and> held_tasks (assign 0 (\<lambda>t. t\<lparr>title := ''changed by the caller''\<rparr>)
         \<lparr>objects = [task_A], task_refs = [0]\<rparr>)
       = [Some (task_A\<lparr>title := ''changed by the caller''\<rparr>)]
   \<and> task_A\<lparr>title := ''changed by the caller''\<rparr> \<noteq> task_A
   \<and> fst (getState_ref \<lparr>objects = [task_A], task_refs = [0]\<rparr>) = [1]
   \<and> held_tasks (assign 1 (\<lambda>t. t\<lparr>title := ''changed by the caller''\<rparr>)
         (snd (getState_ref \<lparr>objects = [task_A], task_refs = [0]\<rparr>)))
       = [Some task_A]"
  by (simp add: getTask_ref_def getAllTasks_ref_def held_tasks_def deref_def element_at_def
      assign_def getState_ref_def task_A_def)

section \<open>An import that fails in part\<close>


lemma blob_size_Nil: "blob_size [] = 0"
  by (simp add: blob_size_def)

lemma blob_size_Cons: "blob_size (c # s) = (if (of_char c :: nat) < 128 then 1 else 2) + blob_size s"
  by (simp add: blob_size_def)

lemma blob_size_big_id: "blob_size big_id = 5242880"
  by (simp add: big_id_def blob_size_replicate)

lemma escape_big_id: "concat (map escape_char big_id) = big_id"
proof -
  have "concat (map escape_char (replicate n (CHR ''x''))) = replicate n (CHR ''x'')" for n
    by (induction n) (simp_all add: escape_char_def)
  then show ?thesis by (simp add: big_id_def)
qed

lemma big_id_nonempty: "big_id \<noteq> []"
  by (simp add: big_id_def)

lemma setItem_quota_exceeded_lemma:
  assumes "isAvailable s"
      and "used (getStorageInfo s) + blob_size (JSON_stringify v) > MAX_STORAGE_SIZE"
  shows "setItem key v s = (Some StorageQuotaExceeded, s)"
  using assms by (simp add: setItem_def Let_def del: JSON_stringify.simps)

lemmas json_eval = quote_def escape_char_def escape_big_id


lemmas settings_eval = settings_text_def settings_record_def settings_object_def validateSettings_def
  bool_setting_def
  choice_setting_def T0_def CURRENT_VERSION_def show_int_def digit_char_def

lemma size_settings_50: "blob_size (settings_text 50) = 202"
  by (simp add: settings_eval json_eval blob_size_Cons blob_size_Nil)

lemma size_settings_5: "blob_size (settings_text 5) = 201"
  by (simp add: settings_eval json_eval blob_size_Cons blob_size_Nil)

lemma settings_texts_differ: "settings_text 5 \<noteq> settings_text 50"
proof
  assume "settings_text 5 = settings_text 50"
  then have "blob_size (settings_text 5) = blob_size (settings_text 50)" by (rule arg_cong)
  then show False by (simp add: size_settings_5 size_settings_50)
qed

lemma settings_50_nonempty: "settings_text 50 \<noteq> []"
proof
  assume "settings_text 50 = []"
  then have "blob_size (settings_text 50) = blob_size []" by (rule arg_cong)
  then show False by (simp add: size_settings_50 blob_size_Nil)
qed

lemma import_text_head: "import_text ! 2 = CHR ''v''"
  by (simp add: import_text_def import_data_def quote_def escape_char_def)

lemma settings_text_head: "settings_text 50 ! 2 = CHR ''s''"
  by (simp add: settings_eval quote_def escape_char_def)

lemma import_not_settings: "import_text \<noteq> settings_text 50"
proof
  assume "import_text = settings_text 50"
  then have "import_text ! 2 = settings_text 50 ! 2" by (rule arg_cong)
  then show False by (simp only: import_text_head settings_text_head) simp
qed

lemma parse_import: "scenario_parse import_text = Some import_data"
  by (simp add: scenario_parse_def import_not_settings)

lemma parse_settings: "scenario_parse (settings_text 50) = Some (settings_record 50)"
  by (simp add: scenario_parse_def)


lemma validate_import: "validateImportData import_data = Inr True"
  by (simp add: validateImportData_def import_data_def)

lemma import_store_eq:
  "import_store = empty_storage\<lparr>items := [VERSION \<mapsto> JSON_stringify (JStr CURRENT_VERSION),
                                              SETTINGS \<mapsto> settings_text 50]\<rparr>"
  by (simp add: import_store_def fresh_storage_eq empty_storage_def)

lemma export_keeps_store: "snd (exportData scenario_parse T0 import_store) = import_store"
  by (simp add: exportData_def loadTasks_def getItem_def import_store_eq empty_storage_def
      split_beta Let_def TASKS_def SETTINGS_def VERSION_def)

lemma used_import_store: "used (getStorageInfo import_store) = 209"
  by (simp add: getStorageInfo_def import_store_eq empty_storage_def Let_def STORAGE_KEYS_def
      item_size_def settings_50_nonempty size_settings_50 TASKS_def SETTINGS_def UI_STATE_def
      VERSION_def CURRENT_VERSION_def quote_def escape_char_def blob_size_Cons blob_size_Nil)

lemma tasks_do_not_fit:
  "saveTasks T0 (get_prop import_data ''tasks'') import_store = (False, import_store)"
proof -
  have v: "validateTasks T0 (get_prop import_data ''tasks'')
      = Inr [JObj [(''id'', JStr big_id), (''title'', JStr ''t''), (''completed'', JBool False),
                   (''priority'', JStr ''medium''), (''createdAt'', JStr T0),
                   (''updatedAt'', JStr T0), (''completedAt'', JNull)]]"
    by (simp add: import_data_def validateTasks_def valid_task_object_def validated_task_def
        prop_or_null_def or_else_def choice_setting_def substring0_def big_id_nonempty)
  have a: "isAvailable import_store"
    by (simp add: import_store_eq empty_storage_def)
  have "blob_size (JSON_stringify
          (JObj [(''tasks'', JArr [JObj [(''id'', JStr big_id), (''title'', JStr ''t''),
                   (''completed'', JBool False), (''priority'', JStr ''medium''),
                   (''createdAt'', JStr T0), (''updatedAt'', JStr T0), (''completedAt'', JNull)]]),
                 (''timestamp'', JStr T0), (''version'', JStr CURRENT_VERSION)]))
        > MAX_STORAGE_SIZE"
    by (simp add: json_eval blob_size_Cons blob_size_Nil blob_size_append blob_size_big_id
        T0_def CURRENT_VERSION_def MAX_STORAGE_SIZE_def)
  then have "used (getStorageInfo import_store) + blob_size (JSON_stringify
          (JObj [(''tasks'', JArr [JObj [(''id'', JStr big_id), (''title'', JStr ''t''),
                   (''completed'', JBool False), (''priority'', JStr ''medium''),
                   (''createdAt'', JStr T0), (''updatedAt'', JStr T0), (''completedAt'', JNull)]]),
                 (''timestamp'', JStr T0), (''version'', JStr CURRENT_VERSION)]))
        > MAX_STORAGE_SIZE"
    by linarith
  from setItem_quota_exceeded_lemma [OF a this, of TASKS] v show ?thesis
    by (simp add: saveTasks_def del: JSON_stringify.simps)
qed


lemma settings_fit:
  "saveSettings T0 (JObj [(''maxTasks'', JNum 5)]) import_store
     = (True, import_store\<lparr>items := (items import_store)(SETTINGS \<mapsto> settings_text 5),
                            setItem_log := [(SETTINGS, settings_text 5)]\<rparr>)"
proof -
  have v: "validateSettings (JObj [(''maxTasks'', JNum 5)])
             = Inr (settings_object (Some 5) (JObj [(''maxTasks'', JNum 5)]))"
    by (simp add: validateSettings_def)
  have fits: "\<not> used (getStorageInfo import_store) + blob_size (settings_text 5) > MAX_STORAGE_SIZE"
    by (simp add: used_import_store size_settings_5 MAX_STORAGE_SIZE_def)
  have "setItem SETTINGS (settings_record 5) import_store
      = (None, import_store\<lparr>items := (items import_store)(SETTINGS \<mapsto> settings_text 5),
                            setItem_log := [(SETTINGS, settings_text 5)]\<rparr>)"
    using fits
    by (simp add: setItem_def Let_def settings_text_def import_store_eq empty_storage_def
        del: JSON_stringify.simps)
  then show ?thesis
    by (simp add: saveSettings_def v settings_record_def del: JSON_stringify.simps)
qed

text \<open>
  C4. An import whose tasks do not fit under the quota and whose settings do: the store
  holds a settings record with \<open>maxTasks: 50\<close> and no tasks record; the imported text has
  one task with an id of 5 MiB and the settings \<open>{ maxTasks: 5 }\<close>. \<open>saveTasks\<close> fails
  with \<open>'Storage quota exceeded'\<close>, catches it and returns \<open>false\<close>; \<open>importData\<close> goes
  on, stores the new settings and reports success with one imported task. The backup is
  not restored: the persisted settings are the imported ones, and no task was stored.
\<close>

theorem import_without_restore:
  "fst (importData scenario_parse T0 import_text import_store)
     = Inr \<lparr>success = True, imported_tasks = 1, imported_settings = 1, imported_uiState = 0\<rparr>
   \<and> items (snd (importData scenario_parse T0 import_text import_store)) TASKS = None
   \<and> items (snd (importData scenario_parse T0 import_text import_store)) SETTINGS
       = Some (settings_text 5)
   \<and> items import_store SETTINGS = Some (settings_text 50)
   \<and> settings_text 5 \<noteq> settings_text 50"
proof -
  have t: "get_prop import_data ''tasks'' = Some (JArr [JObj [(''id'', JStr big_id), (''title'', JStr ''t'')]])"
    "get_prop import_data ''settings'' = Some (JObj [(''maxTasks'', JNum 5)])"
    "get_prop import_data ''uiState'' = None"
    by (simp_all add: import_data_def)
  have e: "exportData scenario_parse T0 import_store
             = (fst (exportData scenario_parse T0 import_store), import_store)"
    using export_keeps_store by (metis prod.collapse)
  have "importData scenario_parse T0 import_text import_store
      = (Inr \<lparr>success = True, imported_tasks = 1, imported_settings = 1, imported_uiState = 0\<rparr>,
         import_store\<lparr>items := (items import_store)(SETTINGS \<mapsto> settings_text 5),
                      setItem_log := [(SETTINGS, settings_text 5)]\<rparr>)"
    unfolding importData_def parse_import
    apply (simp only: option.case validate_import sum.case bool.case)
    apply (subst e)
    apply (simp only: prod.case Let_def)
    apply (simp add: t tasks_do_not_fit [unfolded t] settings_fit array_length_def)
    done
  then show ?thesis
    by (simp add: settings_texts_differ import_store_eq TASKS_def SETTINGS_def VERSION_def)
qed


end
